theory Spec2Isabelle
  imports Complex_Main "HOL-Library.Word" "HOL-Library.Multiset"
begin

section \<open>JavaScript values used by the pages\<close>

text \<open>
  A JavaScript string is a sequence of UTF-16 code units; \<open>length\<close>, \<open>charCodeAt\<close>,
  \<open>substring\<close>, \<open>split\<close>, \<open>startsWith\<close> and \<open>===\<close> all work on code units. The string
  constants of the sources are ASCII and are written through \<open>js\<close>.
\<close>

type_synonym jsstring = "16 word list"

definition js :: "string \<Rightarrow> jsstring" where
  "js s = map of_char s"

text \<open>\<open>str.charCodeAt(i)\<close> for an index in range: the code unit as a number.\<close>

definition charCode :: "16 word \<Rightarrow> int" where
  "charCode c = uint c"

text \<open>A string is falsy exactly when it is empty; \<open>null\<close> and \<open>undefined\<close> are \<open>None\<close>.\<close>

fun truthy :: "jsstring option \<Rightarrow> bool" where
  "truthy None = False"
| "truthy (Some s) = (s \<noteq> [])"

text \<open>
  \<open>ToInt32\<close>: the conversion the bitwise operators apply to their operands. The numbers
  met here are integers far below \<open>2^53\<close>, so double arithmetic on them is exact.
\<close>

definition toInt32 :: "int \<Rightarrow> int" where
  "toInt32 x = (let m = x mod 2 ^ 32 in if m \<ge> 2 ^ 31 then m - 2 ^ 32 else m)"

text \<open>\<open>a % b\<close> on integers: the remainder takes the sign of the dividend.\<close>

definition js_rem :: "int \<Rightarrow> int \<Rightarrow> int" where
  "js_rem a b = sgn a * (\<bar>a\<bar> mod \<bar>b\<bar>)"

text \<open>\<open>xs[i]\<close> on an array: \<open>undefined\<close> (here \<open>None\<close>) outside \<open>0 .. length - 1\<close>.\<close>

definition array_get :: "'a list \<Rightarrow> int \<Rightarrow> 'a option" where
  "array_get xs i = (if 0 \<le> i \<and> i < int (length xs) then Some (xs ! nat i) else None)"

text \<open>
  \<open>toLowerCase\<close> on ASCII strings, where it maps \<open>A\<close>..\<open>Z\<close> to \<open>a\<close>..\<open>z\<close> and nothing else.
  The colour function takes the platform's lower-casing as a parameter; this instance
  serves the closed examples, which are ASCII.
\<close>

definition toLowerCase_ascii :: "jsstring \<Rightarrow> jsstring" where
  "toLowerCase_ascii s = map (\<lambda>c. if 65 \<le> c \<and> c \<le> 90 then c + 32 else c) s"

text \<open>A thrown \<open>Error\<close> object: its \<open>name\<close> and its \<open>message\<close>.\<close>

record js_error =
  err_name :: jsstring
  err_message :: jsstring

definition TypeError :: "jsstring \<Rightarrow> js_error" where
  "TypeError msg = \<lparr>err_name = js ''TypeError'', err_message = msg\<rparr>"

section \<open>User avatar: \<open>components/ui/user-avatar.tsx\<close>\<close>

definition user_colors :: "jsstring list" where
  "user_colors =
    [js ''#3b82f6'', js ''#22c55e'', js ''#a855f7'', js ''#f97316'',
     js ''#ec4899'', js ''#06b6d4'', js ''#eab308'', js ''#6366f1'',
     js ''#14b8a6'', js ''#f43f5e'', js ''#f59e0b'', js ''#10b981'',
     js ''#8b5cf6'', js ''#d946ef'', js ''#0ea5e9'', js ''#84cc16'']"

text \<open>
  \<open>getUserColor(userId) = colors[userId % colors.length]\<close>, on integer ids. The result
  is \<open>None\<close> where the array read gives \<open>undefined\<close>.
\<close>

definition getUserColor :: "int \<Rightarrow> jsstring option" where
  "getUserColor userId = array_get user_colors (js_rem userId (int (length user_colors)))"

section \<open>Calendar page: colours\<close>

datatype TicketStatus = Open | InProgress | Resolved | Closed

datatype Priority = Urgent | High | Medium | Low | NoPriority

record label =
  label_id :: jsstring
  label_name :: jsstring
  label_color :: "jsstring option"

record user =
  user_id :: int
  user_name :: jsstring
  user_color :: "jsstring option"

record project =
  project_id :: jsstring
  project_name :: jsstring
  project_identifier :: jsstring

text \<open>
  The fields of \<open>Ticket\<close> that the calendar projection and the colour function read.
  \<open>priority\<close> has the five values of its type, \<open>NoPriority\<close> being \<open>"none"\<close>; an
  optional field is \<open>None\<close> when it is \<open>null\<close> or \<open>undefined\<close>.
\<close>

record ticket =
  ticket_id :: jsstring
  title :: jsstring
  start_date :: "jsstring option"
  end_date :: "jsstring option"
  assignee :: "jsstring option"
  status :: TicketStatus
  priority :: Priority
  estimated_hours :: "real option"
  ticket_project :: "project option"
  labels :: "label list option"
  assignee_user :: "user option"

record palette_entry =
  pe_className :: jsstring
  pe_hex :: jsstring

definition COLOR_PALETTE :: "palette_entry list" where
  "COLOR_PALETTE =
    [\<lparr>pe_className = js ''bg-blue-500'', pe_hex = js ''#3b82f6''\<rparr>,
     \<lparr>pe_className = js ''bg-green-500'', pe_hex = js ''#22c55e''\<rparr>,
     \<lparr>pe_className = js ''bg-purple-500'', pe_hex = js ''#a855f7''\<rparr>,
     \<lparr>pe_className = js ''bg-orange-500'', pe_hex = js ''#f97316''\<rparr>,
     \<lparr>pe_className = js ''bg-pink-500'', pe_hex = js ''#ec4899''\<rparr>,
     \<lparr>pe_className = js ''bg-cyan-500'', pe_hex = js ''#06b6d4''\<rparr>,
     \<lparr>pe_className = js ''bg-yellow-500'', pe_hex = js ''#eab308''\<rparr>,
     \<lparr>pe_className = js ''bg-indigo-500'', pe_hex = js ''#6366f1''\<rparr>,
     \<lparr>pe_className = js ''bg-teal-500'', pe_hex = js ''#14b8a6''\<rparr>,
     \<lparr>pe_className = js ''bg-rose-500'', pe_hex = js ''#f43f5e''\<rparr>,
     \<lparr>pe_className = js ''bg-amber-500'', pe_hex = js ''#f59e0b''\<rparr>,
     \<lparr>pe_className = js ''bg-emerald-500'', pe_hex = js ''#10b981''\<rparr>,
     \<lparr>pe_className = js ''bg-violet-500'', pe_hex = js ''#8b5cf6''\<rparr>,
     \<lparr>pe_className = js ''bg-fuchsia-500'', pe_hex = js ''#d946ef''\<rparr>,
     \<lparr>pe_className = js ''bg-sky-500'', pe_hex = js ''#0ea5e9''\<rparr>,
     \<lparr>pe_className = js ''bg-lime-500'', pe_hex = js ''#84cc16''\<rparr>,
     \<lparr>pe_className = js ''bg-red-500'', pe_hex = js ''#ef4444''\<rparr>,
     \<lparr>pe_className = js ''bg-blue-600'', pe_hex = js ''#2563eb''\<rparr>,
     \<lparr>pe_className = js ''bg-green-600'', pe_hex = js ''#16a34a''\<rparr>,
     \<lparr>pe_className = js ''bg-purple-600'', pe_hex = js ''#9333ea''\<rparr>]"

text \<open>
  A value read off a plain object by a string key: a string, or what every object
  inherits from \<open>Object.prototype\<close> under that key. \<open>Inherited k\<close> is the value of
  \<open>Object.prototype[k]\<close>: a function, or for \<open>__proto__\<close> the prototype object itself;
  it is truthy and it is not a string.
\<close>

datatype property_value = Str jsstring | Inherited jsstring

text \<open>The value \<open>getEventColor\<close> returns: \<open>className\<close> and the optional inline
  \<open>style.backgroundColor\<close>.\<close>

record event_color =
  className :: property_value
  style_backgroundColor :: "jsstring option"

text \<open>The own properties of the object literal \<open>colorMap\<close>.\<close>

definition colorMap :: "(jsstring \<times> jsstring) list" where
  "colorMap =
    [(js ''cyan'', js ''bg-cyan-500''), (js ''purple'', js ''bg-purple-500''),
     (js ''yellow'', js ''bg-yellow-500''), (js ''green'', js ''bg-green-500''),
     (js ''red'', js ''bg-red-500''), (js ''blue'', js ''bg-blue-500''),
     (js ''orange'', js ''bg-orange-500''), (js ''pink'', js ''bg-pink-500''),
     (js ''indigo'', js ''bg-indigo-500''), (js ''teal'', js ''bg-teal-500''),
     (js ''lime'', js ''bg-lime-500''), (js ''amber'', js ''bg-amber-500''),
     (js ''emerald'', js ''bg-emerald-500''), (js ''sky'', js ''bg-sky-500''),
     (js ''violet'', js ''bg-violet-500''), (js ''fuchsia'', js ''bg-fuchsia-500''),
     (js ''rose'', js ''bg-rose-500'')]"

text \<open>
  The property names of \<open>Object.prototype\<close>, which a plain object such as \<open>colorMap\<close>
  answers to besides its own.
\<close>

definition object_prototype_names :: "jsstring list" where
  "object_prototype_names =
    [js ''constructor'', js ''__defineGetter__'', js ''__defineSetter__'',
     js ''hasOwnProperty'', js ''__lookupGetter__'', js ''__lookupSetter__'',
     js ''isPrototypeOf'', js ''propertyIsEnumerable'', js ''toString'', js ''valueOf'',
     js ''__proto__'', js ''toLocaleString'']"

text \<open>
  \<open>colorMap[key]\<close>: the own property of that name, else the inherited one, else
  \<open>undefined\<close>.
\<close>

definition colorMap_get :: "jsstring \<Rightarrow> property_value option" where
  "colorMap_get key =
     (case map_of colorMap key of
        Some cls \<Rightarrow> Some (Str cls)
      | None \<Rightarrow> if key \<in> set object_prototype_names then Some (Inherited key) else None)"

text \<open>
  \<open>hashString\<close>: the loop \<open>hash = ((hash << 5) - hash) + str.charCodeAt(i); hash = hash & hash\<close>
  from \<open>hash = 0\<close>, then \<open>Math.abs(hash)\<close>. \<open>hash << 5\<close> is a 32-bit shift, the subtraction
  and the addition are exact, and \<open>hash & hash\<close> applies \<open>ToInt32\<close>.
\<close>

fun hashString_loop :: "int \<Rightarrow> jsstring \<Rightarrow> int" where
  "hashString_loop hash [] = hash"
| "hashString_loop hash (c # str) =
     hashString_loop (toInt32 ((toInt32 (hash * 2 ^ 5) - hash) + charCode c)) str"

definition hashString :: "jsstring \<Rightarrow> int" where
  "hashString str = \<bar>hashString_loop 0 str\<bar>"

text \<open>\<open>hashString(ticket.id) % COLOR_PALETTE.length\<close>, the palette index \<open>hash\<close>.\<close>

definition palette_hash :: "jsstring \<Rightarrow> int" where
  "palette_hash str = js_rem (hashString str) (int (length COLOR_PALETTE))"

text \<open>\<open>labels[0].color\<close> when \<open>ticket.labels && ticket.labels.length > 0 && ticket.labels[0].color\<close>
  holds.\<close>

definition first_label_color :: "ticket \<Rightarrow> jsstring option" where
  "first_label_color t =
     (case labels t of
        None \<Rightarrow> None
      | Some [] \<Rightarrow> None
      | Some (l # _) \<Rightarrow> (if truthy (label_color l) then label_color l else None))"

definition startsWith_hash :: "jsstring \<Rightarrow> bool" where
  "startsWith_hash s = (case s of [] \<Rightarrow> False | c # _ \<Rightarrow> c = of_char (CHR ''#''))"

text \<open>
  \<open>getEventColor\<close>. Lower-casing is the platform's, and is a parameter. Reading
  \<open>.className\<close> of an \<open>undefined\<close> palette entry throws a \<open>TypeError\<close>, which is the
  \<open>Inl\<close> branch; the entry \<open>color\<close> is read only for the statuses that use it.
\<close>

definition getEventColor :: "(jsstring \<Rightarrow> jsstring) \<Rightarrow> ticket \<Rightarrow> js_error + event_color" where
  "getEventColor toLowerCase t =
     (case first_label_color t of
        Some labelColor \<Rightarrow>
          (if startsWith_hash labelColor
           then Inr \<lparr>className = Str [], style_backgroundColor = Some labelColor\<rparr>
           else Inr \<lparr>className =
                       (case colorMap_get (toLowerCase labelColor) of
                          Some v \<Rightarrow> v
                        | None \<Rightarrow> Str (js ''bg-slate-500'')),
                     style_backgroundColor = None\<rparr>)
      | None \<Rightarrow>
          (case priority t of
             Urgent \<Rightarrow> Inr \<lparr>className = Str (js ''bg-red-500''), style_backgroundColor = None\<rparr>
           | High \<Rightarrow> Inr \<lparr>className = Str (js ''bg-orange-500''), style_backgroundColor = None\<rparr>
           | Medium \<Rightarrow> Inr \<lparr>className = Str (js ''bg-yellow-500''), style_backgroundColor = None\<rparr>
           | Low \<Rightarrow> Inr \<lparr>className = Str (js ''bg-blue-300''), style_backgroundColor = None\<rparr>
           | NoPriority \<Rightarrow>
               (let hash = palette_hash (ticket_id t);
                    color = array_get COLOR_PALETTE hash
                in case status t of
                     Open \<Rightarrow>
                       (case color of
                          None \<Rightarrow> Inl (TypeError (js ''color is undefined''))
                        | Some c \<Rightarrow>
                            Inr \<lparr>className = Str (pe_className c), style_backgroundColor = None\<rparr>)
                   | InProgress \<Rightarrow>
                       (let inProgressIndex = js_rem (hash + 1) (int (length COLOR_PALETTE))
                        in case array_get COLOR_PALETTE inProgressIndex of
                             None \<Rightarrow> Inl (TypeError (js ''COLOR_PALETTE[inProgressIndex] is undefined''))
                           | Some c \<Rightarrow>
                               Inr \<lparr>className = Str (pe_className c),
                                    style_backgroundColor = None\<rparr>)
                   | Resolved \<Rightarrow>
                       Inr \<lparr>className = Str (js ''bg-green-500''), style_backgroundColor = None\<rparr>
                   | Closed \<Rightarrow>
                       Inr \<lparr>className = Str (js ''bg-slate-600''),
                            style_backgroundColor = None\<rparr>)))"

section \<open>Calendar page: the projection of tickets onto dates\<close>

record calendar_event =
  ev_id :: jsstring
  ev_title :: jsstring
  date :: jsstring
  hours :: real
  color :: event_color
  ev_assignee :: "jsstring option"
  ev_assignee_user :: "user option"
  ev_status :: TicketStatus
  ticketId :: jsstring
  ev_project :: "project option"

text \<open>\<open>s.split("T")[0]\<close>: the code units before the first \<open>T\<close>, all of \<open>s\<close> when it has none.\<close>

definition date_part :: "jsstring \<Rightarrow> jsstring" where
  "date_part s = takeWhile (\<lambda>c. c \<noteq> of_char (CHR ''T'')) s"

text \<open>
  \<open>eventMap\<close> is a \<open>Map\<close> from date strings to arrays of events. A \<open>Map\<close> keeps its
  keys in insertion order, so it is an association list; \<open>get\<close> and \<open>has\<close> read the
  first entry of a key, \<open>set\<close> replaces it or appends a new entry.
\<close>

type_synonym event_map = "(jsstring \<times> calendar_event list) list"

definition map_has :: "event_map \<Rightarrow> jsstring \<Rightarrow> bool" where
  "map_has m k = (map_of m k \<noteq> None)"

fun map_set :: "jsstring \<Rightarrow> calendar_event list \<Rightarrow> event_map \<Rightarrow> event_map" where
  "map_set k v [] = [(k, v)]"
| "map_set k v ((k', v') # m) = (if k' = k then (k, v) # m else (k', v') # map_set k v m)"

text \<open>The array \<open>eventMap.get(k)\<close> after \<open>push(e)\<close>, in place in the map.\<close>

fun push_at :: "jsstring \<Rightarrow> calendar_event \<Rightarrow> event_map \<Rightarrow> event_map" where
  "push_at k e [] = []"
| "push_at k e ((k', es) # m) = (if k' = k then (k', es @ [e]) # m else (k', es) # push_at k e m)"

text \<open>
  \<open>eventMap.get(k)!.push(e)\<close>: \<open>get\<close> gives \<open>undefined\<close> for a missing key, and the call
  on it throws.
\<close>

definition get_push :: "jsstring \<Rightarrow> calendar_event \<Rightarrow> event_map \<Rightarrow> js_error + event_map" where
  "get_push k e m =
     (case map_of m k of
        None \<Rightarrow> Inl (TypeError (js ''eventMap.get(...) is undefined''))
      | Some _ \<Rightarrow> Inr (push_at k e m))"

text \<open>\<open>if (!eventMap.has(dateStr)) eventMap.set(dateStr, [])\<close>.\<close>

definition ensure_bucket :: "jsstring \<Rightarrow> event_map \<Rightarrow> event_map" where
  "ensure_bucket dateStr m = (if \<not> map_has m dateStr then map_set dateStr [] m else m)"

text \<open>The event object both branches build; they differ in the prefix of \<open>id\<close> only.\<close>

definition make_event :: "jsstring \<Rightarrow> ticket \<Rightarrow> jsstring \<Rightarrow> event_color \<Rightarrow> calendar_event" where
  "make_event prefix t dateStr c =
     \<lparr>ev_id = prefix @ ticket_id t,
      ev_title = (if length (title t) > 20 then take 17 (title t) @ js ''...'' else title t),
      date = dateStr,
      hours = (case estimated_hours t of None \<Rightarrow> 8 | Some h \<Rightarrow> if h = 0 then 8 else h),
      color = c,
      ev_assignee = assignee t,
      ev_assignee_user = assignee_user t,
      ev_status = status t,
      ticketId = ticket_id t,
      ev_project = ticket_project t\<rparr>"

text \<open>\<open>if (ticket.start_date) { ... }\<close>\<close>

definition add_start :: "event_color \<Rightarrow> ticket \<Rightarrow> event_map \<Rightarrow> js_error + event_map" where
  "add_start c t em =
     (case start_date t of
        None \<Rightarrow> Inr em
      | Some s \<Rightarrow>
          (if s = [] then Inr em
           else (let dateStr = date_part s
                 in get_push dateStr (make_event (js ''start-'') t dateStr c)
                      (ensure_bucket dateStr em))))"

text \<open>\<open>if (ticket.end_date && ticket.end_date !== ticket.start_date) { ... }\<close>\<close>

definition add_end :: "event_color \<Rightarrow> ticket \<Rightarrow> event_map \<Rightarrow> js_error + event_map" where
  "add_end c t em =
     (case end_date t of
        None \<Rightarrow> Inr em
      | Some s \<Rightarrow>
          (if s = [] \<or> end_date t = start_date t then Inr em
           else (let dateStr = date_part s;
                     em' = ensure_bucket dateStr em
                 in case map_of em' dateStr of
                      None \<Rightarrow> Inl (TypeError (js ''eventMap.get(...) is undefined''))
                    | Some bucket \<Rightarrow>
                        (case find (\<lambda>e. ticketId e = ticket_id t) bucket of
                           Some existing \<Rightarrow> Inr em'
                         | None \<Rightarrow>
                             get_push dateStr (make_event (js ''end-'') t dateStr c) em'))))"

text \<open>The body of \<open>tickets.forEach\<close>, on the map built so far.\<close>

definition add_ticket :: "(jsstring \<Rightarrow> jsstring) \<Rightarrow> event_map \<Rightarrow> ticket \<Rightarrow> js_error + event_map" where
  "add_ticket toLowerCase em t =
     (if \<not> truthy (start_date t) \<and> \<not> truthy (end_date t) then Inr em
      else (case getEventColor toLowerCase t of
              Inl err \<Rightarrow> Inl err
            | Inr c \<Rightarrow>
                (case add_start c t em of
                   Inl err \<Rightarrow> Inl err
                 | Inr em1 \<Rightarrow> add_end c t em1)))"

fun forEach_tickets ::
  "(jsstring \<Rightarrow> jsstring) \<Rightarrow> ticket list \<Rightarrow> event_map \<Rightarrow> js_error + event_map" where
  "forEach_tickets toLowerCase [] em = Inr em"
| "forEach_tickets toLowerCase (t # ts) em =
     (case add_ticket toLowerCase em t of
        Inl err \<Rightarrow> Inl err
      | Inr em' \<Rightarrow> forEach_tickets toLowerCase ts em')"

text \<open>Flattening the map: the buckets in key order, one after the other.\<close>

definition allEvents :: "event_map \<Rightarrow> calendar_event list" where
  "allEvents em = concat (map snd em)"

definition events :: "(jsstring \<Rightarrow> jsstring) \<Rightarrow> ticket list \<Rightarrow> js_error + calendar_event list" where
  "events toLowerCase tickets =
     (case forEach_tickets toLowerCase tickets [] of
        Inl err \<Rightarrow> Inl err
      | Inr eventMap \<Rightarrow> Inr (allEvents eventMap))"

text \<open>\<open>getEventsForDate\<close>, with the array \<open>events\<close> it closes over as an argument.\<close>

definition getEventsForDate :: "calendar_event list \<Rightarrow> jsstring \<Rightarrow> calendar_event list" where
  "getEventsForDate evs dateStr = filter (\<lambda>event. date event = dateStr) evs"

section \<open>Calendar page: the month grid\<close>

text \<open>
  \<open>getDaysInMonth\<close> reads three values off the platform's \<open>Date\<close>:
  \<open>new Date(year, month + 1, 0).getDate()\<close>, \<open>new Date(year, month, 1).getDay()\<close> and
  \<open>new Date(year, month, 0).getDate()\<close>. They are the input here; \<open>getDate\<close> and
  \<open>getDay\<close> return non-negative integers.
\<close>

record month_dates =
  lastDay_getDate :: nat
  firstDay_getDay :: nat
  prevMonthLast_getDate :: nat

record month_grid =
  daysInMonth :: nat
  startingDayOfWeek :: nat
  prevMonthDays :: "int list"
  nextMonthDays :: "int list"

text \<open>\<open>for (let i = startingDayOfWeek - 1; i >= 0; i--) prevMonthDays.push(prevMonthLastDay - i)\<close>\<close>

function prevMonthDays_loop :: "int \<Rightarrow> int \<Rightarrow> int list \<Rightarrow> int list" where
  "prevMonthDays_loop i prevMonthLastDay acc =
     (if i \<ge> 0 then prevMonthDays_loop (i - 1) prevMonthLastDay (acc @ [prevMonthLastDay - i])
      else acc)"
  by pat_completeness auto
termination
  by (relation "measure (\<lambda>(i, p, acc). nat (i + 1))") auto

declare prevMonthDays_loop.simps [simp del]

text \<open>\<open>for (let i = 1; i <= nextMonthDays; i++) nextMonthDaysArray.push(i)\<close>\<close>

function nextMonthDays_loop :: "int \<Rightarrow> int \<Rightarrow> int list \<Rightarrow> int list" where
  "nextMonthDays_loop i n acc =
     (if i \<le> n then nextMonthDays_loop (i + 1) n (acc @ [i]) else acc)"
  by pat_completeness auto
termination
  by (relation "measure (\<lambda>(i, n, acc). nat (n + 1 - i))") auto

declare nextMonthDays_loop.simps [simp del]

text \<open>\<open>Math.ceil((startingDayOfWeek + daysInMonth) / 7) * 7\<close>\<close>

definition totalCells :: "nat \<Rightarrow> nat \<Rightarrow> int" where
  "totalCells startingDay days = \<lceil>real (startingDay + days) / 7\<rceil> * 7"

definition getDaysInMonth :: "month_dates \<Rightarrow> month_grid" where
  "getDaysInMonth d =
     (let days = lastDay_getDate d;
          startingDay = firstDay_getDay d;
          prevMonthLastDay = int (prevMonthLast_getDate d);
          prev = prevMonthDays_loop (int startingDay - 1) prevMonthLastDay [];
          next = totalCells startingDay days - (int startingDay + int days);
          nextMonthDaysArray = nextMonthDays_loop 1 next []
      in \<lparr>daysInMonth = days, startingDayOfWeek = startingDay,
          prevMonthDays = prev, nextMonthDays = nextMonthDaysArray\<rparr>)"

section \<open>Requests and responses\<close>

text \<open>
  The value handed to \<open>JSON.stringify\<close> for a request body. A property whose value is
  \<open>undefined\<close> is left out by \<open>JSON.stringify\<close>, and is left out here.
\<close>

datatype json_value = JNull | JString jsstring | JObject "(jsstring \<times> json_value) list"

record blob =
  blob_type :: jsstring
  blob_bytes :: "8 word list"

record file_upload =
  file_name :: jsstring
  file_type :: jsstring
  file_bytes :: "8 word list"

datatype audio = UploadedFile file_upload | RecordedBlob blob

text \<open>A \<open>FormData\<close> entry of \<open>append(name, value, filename)\<close>.\<close>

record form_entry =
  entry_name :: jsstring
  entry_value :: audio
  entry_filename :: jsstring

datatype request_body = FormData "form_entry list" | JsonText json_value

record http_request =
  req_method :: jsstring
  req_url :: jsstring
  req_headers :: "(jsstring \<times> jsstring) list"
  req_body :: request_body

text \<open>
  What a \<open>fetch\<close> call comes back with is an input of the operations: the promise rejects
  with an error, or it resolves to a response; \<open>response.json()\<close> in turn rejects or
  resolves to the parsed body. The bodies are JSON objects, read at the properties the
  page reads, which are strings when present; \<open>json_text\<close> is what \<open>JSON.stringify\<close>
  makes of the body.
\<close>

record response_json =
  detail :: "jsstring option"
  message :: "jsstring option"
  resp_transcript :: "jsstring option"
  json_text :: jsstring

datatype json_outcome = JsonRejects js_error | JsonResolves response_json

record response =
  ok :: bool
  resp_status :: jsstring
  resp_statusText :: jsstring
  json :: json_outcome

datatype fetch_outcome = FetchRejects js_error | FetchResolves response

text \<open>\<open>a || b\<close> where \<open>a\<close> is a string, \<open>null\<close> or \<open>undefined\<close>.\<close>

definition or_else :: "jsstring option \<Rightarrow> jsstring \<Rightarrow> jsstring" where
  "or_else a b = (if truthy a then the a else b)"

text \<open>\<open>new Error(msg)\<close> and \<open>String(err)\<close> of an error object.\<close>

definition Error :: "jsstring \<Rightarrow> js_error" where
  "Error msg = \<lparr>err_name = js ''Error'', err_message = msg\<rparr>"

definition error_toString :: "js_error \<Rightarrow> jsstring" where
  "error_toString err =
     (if err_name err = [] then err_message err
      else if err_message err = [] then err_name err
      else err_name err @ js '': '' @ err_message err)"

section \<open>Voice assistant: \<open>app/voice-assistant/page.tsx\<close>\<close>

datatype RecordingStatus = Idle | Recording | Processing

datatype TranscriptionStep = Upload | Transcribing | Analyzing | Planning | Creating | Complete

record voice_state =
  recordingStatus :: RecordingStatus
  audioBlob :: "blob option"
  uploadedFile :: "file_upload option"
  transcript :: jsstring
  currentStep :: TranscriptionStep
  error :: jsstring
  analysisResult :: "response_json option"
  isAnalyzing :: bool

text \<open>The state the component starts in: the arguments of its \<open>useState\<close> calls.\<close>

definition initial_state :: voice_state where
  "initial_state =
     \<lparr>recordingStatus = Idle, audioBlob = None, uploadedFile = None, transcript = [],
      currentStep = Upload, error = [], analysisResult = None, isAnalyzing = False\<rparr>"

text \<open>\<open>uploadedFile || audioBlob\<close>\<close>

definition fileToTranscribe :: "voice_state \<Rightarrow> audio option" where
  "fileToTranscribe s =
     (case uploadedFile s of
        Some f \<Rightarrow> Some (UploadedFile f)
      | None \<Rightarrow> (case audioBlob s of Some b \<Rightarrow> Some (RecordedBlob b) | None \<Rightarrow> None))"

text \<open>
  The request of \<open>transcribeAudio\<close>: the form with its one \<open>append\<close>, and the \<open>fetch\<close>
  arguments.
\<close>

definition transcribe_request :: "jsstring \<Rightarrow> voice_state \<Rightarrow> audio \<Rightarrow> http_request" where
  "transcribe_request API_URL s f =
     \<lparr>req_method = js ''POST'',
      req_url = API_URL @ js ''/api/voice/transcribe-file'',
      req_headers = [],
      req_body = FormData
        [\<lparr>entry_name = js ''file'', entry_value = f,
          entry_filename =
            (case uploadedFile s of
               Some u \<Rightarrow> or_else (Some (file_name u)) (js ''recording.webm'')
             | None \<Rightarrow> js ''recording.webm'')\<rparr>]\<rparr>"

text \<open>
  The \<open>try\<close> block of \<open>transcribeAudio\<close> from the \<open>await fetch\<close> on: \<open>Inl\<close> is the error
  it throws, \<open>Inr\<close> the state it ends in.
\<close>

definition transcribe_try :: "fetch_outcome \<Rightarrow> voice_state \<Rightarrow> js_error + voice_state" where
  "transcribe_try net s =
     (case net of
        FetchRejects err \<Rightarrow> Inl err
      | FetchResolves response \<Rightarrow>
          (if \<not> ok response then
             (case json response of
                JsonRejects err \<Rightarrow> Inl err
              | JsonResolves errorData \<Rightarrow>
                  Inl (Error (or_else (detail errorData) (js ''Transcription failed''))))
           else
             (case json response of
                JsonRejects err \<Rightarrow> Inl err
              | JsonResolves data \<Rightarrow>
                  (let s1 = s\<lparr>transcript := or_else (resp_transcript data) []\<rparr>;
                       s2 = (if truthy (resp_transcript data)
                             then s1\<lparr>currentStep := Complete\<rparr>
                             else s1\<lparr>error :=
                                     js ''No speech detected in the audio. Please try again.''\<rparr>)
                   in Inr (s2\<lparr>recordingStatus := Idle\<rparr>)))))"

text \<open>
  \<open>transcribeAudio\<close>: the state after the call, and the requests the call issued,
  in order.
\<close>

definition transcribeAudio ::
  "jsstring \<Rightarrow> fetch_outcome \<Rightarrow> voice_state \<Rightarrow> voice_state \<times> http_request list" where
  "transcribeAudio API_URL net s =
     (case fileToTranscribe s of
        None \<Rightarrow>
          (s\<lparr>error := js ''No audio to transcribe. Please record or upload an audio file.''\<rparr>,
           [])
      | Some f \<Rightarrow>
          (let s1 = s\<lparr>recordingStatus := Processing, currentStep := Transcribing, error := []\<rparr>
           in (case transcribe_try net s1 of
                 Inr s2 \<Rightarrow> s2
               | Inl err \<Rightarrow>
                   s1\<lparr>error := js ''Transcription failed: '' @ err_message err,
                      recordingStatus := Idle,
                      currentStep := Upload\<rparr>,
               [transcribe_request API_URL s f])))"

definition analyze_request :: "jsstring \<Rightarrow> voice_state \<Rightarrow> http_request" where
  "analyze_request API_URL s =
     \<lparr>req_method = js ''POST'',
      req_url = API_URL @ js ''/api/voice/process-meeting'',
      req_headers = [(js ''Content-Type'', js ''application/json'')],
      req_body = JsonText
        (JObject [(js ''transcript'', JString (transcript s)), (js ''project_name'', JNull)])\<rparr>"

text \<open>
  The \<open>try\<close> block of \<open>analyzeWithAI\<close> from the \<open>await fetch\<close> on. The steps
  \<open>planning\<close> and \<open>creating\<close> are set and overwritten within the block; the state it ends
  in has \<open>complete\<close>.
\<close>

definition analyze_try :: "fetch_outcome \<Rightarrow> voice_state \<Rightarrow> js_error + voice_state" where
  "analyze_try net s =
     (case net of
        FetchRejects err \<Rightarrow> Inl err
      | FetchResolves response \<Rightarrow>
          (case json response of
             JsonRejects err \<Rightarrow> Inl err
           | JsonResolves responseData \<Rightarrow>
               (if \<not> ok response then
                  Inl (Error
                    (or_else (detail responseData)
                      (or_else (message responseData)
                        (or_else (Some (json_text responseData))
                          (js ''Server error: '' @ resp_status response @ js '' '' @
                             resp_statusText response)))))
                else
                  Inr (s\<lparr>currentStep := Complete,
                         analysisResult := Some responseData,
                         isAnalyzing := False\<rparr>))))"

definition analyzeWithAI ::
  "jsstring \<Rightarrow> fetch_outcome \<Rightarrow> voice_state \<Rightarrow> voice_state \<times> http_request list" where
  "analyzeWithAI API_URL net s =
     (if transcript s = [] then (s\<lparr>error := js ''No transcript to analyze''\<rparr>, [])
      else
        (let s1 = s\<lparr>isAnalyzing := True, currentStep := Analyzing, error := []\<rparr>
         in (case analyze_try net s1 of
               Inr s2 \<Rightarrow> s2
             | Inl err \<Rightarrow>
                 s1\<lparr>error := js ''AI analysis failed: '' @
                              or_else (Some (err_message err)) (error_toString err),
                    isAnalyzing := False,
                    currentStep := Upload\<rparr>,
             [analyze_request API_URL s])))"

section \<open>Tickets page: \<open>app/tickets/page.tsx\<close>\<close>

text \<open>
  \<open>String.prototype.trim\<close> removes the code units of ECMAScript's \<open>WhiteSpace\<close> and
  \<open>LineTerminator\<close> from both ends.
\<close>

definition is_js_whitespace :: "16 word \<Rightarrow> bool" where
  "is_js_whitespace c =
     (c = 0x0009 \<or> c = 0x000A \<or> c = 0x000B \<or> c = 0x000C \<or> c = 0x000D \<or> c = 0x0020 \<or>
      c = 0x00A0 \<or> c = 0x1680 \<or> (0x2000 \<le> c \<and> c \<le> 0x200A) \<or> c = 0x2028 \<or>
      c = 0x2029 \<or> c = 0x202F \<or> c = 0x205F \<or> c = 0x3000 \<or> c = 0xFEFF)"

definition trim :: "jsstring \<Rightarrow> jsstring" where
  "trim s = rev (dropWhile is_js_whitespace (rev (dropWhile is_js_whitespace s)))"

text \<open>The form state, of type \<open>TicketCreate\<close>.\<close>

record form_data =
  fd_title :: jsstring
  fd_summary :: "jsstring option"
  fd_start_date :: "jsstring option"
  fd_end_date :: "jsstring option"
  fd_assignee :: "jsstring option"
  fd_status :: "TicketStatus option"

fun status_string :: "TicketStatus \<Rightarrow> jsstring" where
  "status_string Open = js ''open''"
| "status_string InProgress = js ''in_progress''"
| "status_string Resolved = js ''resolved''"
| "status_string Closed = js ''closed''"

text \<open>
  \<open>if (cond) payload.key = value\<close>, as the properties the statement adds to the
  payload. A payload is the list of its properties in the order they were added.
\<close>

definition field_if :: "bool \<Rightarrow> jsstring \<Rightarrow> json_value \<Rightarrow> (jsstring \<times> json_value) list" where
  "field_if cond key val = (if cond then [(key, val)] else [])"

text \<open>
  The four \<open>if\<close> statements that add the optional fields to \<open>payload\<close>, the same in
  \<open>createTicket\<close> and \<open>updateTicket\<close>.
\<close>

definition optional_fields :: "form_data \<Rightarrow> (jsstring \<times> json_value) list" where
  "optional_fields formData =
     field_if (truthy (fd_summary formData) \<and> trim (the (fd_summary formData)) \<noteq> [])
       (js ''summary'') (JString (trim (the (fd_summary formData)))) @
     field_if (truthy (fd_assignee formData) \<and> trim (the (fd_assignee formData)) \<noteq> [])
       (js ''assignee'') (JString (trim (the (fd_assignee formData)))) @
     field_if (truthy (fd_start_date formData))
       (js ''start_date'') (JString (the (fd_start_date formData))) @
     field_if (truthy (fd_end_date formData))
       (js ''end_date'') (JString (the (fd_end_date formData)))"

text \<open>\<open>createTicket\<close>: \<open>status: formData.status || "open"\<close>.\<close>

definition createTicket_payload :: "form_data \<Rightarrow> (jsstring \<times> json_value) list" where
  "createTicket_payload formData =
     [(js ''title'', JString (trim (fd_title formData))),
      (js ''status'',
         JString (case fd_status formData of Some st \<Rightarrow> status_string st
                  | None \<Rightarrow> js ''open''))] @
     optional_fields formData"

text \<open>\<open>updateTicket\<close>: \<open>status: formData.status\<close>, which \<open>JSON.stringify\<close> leaves out
  when it is \<open>undefined\<close>.\<close>

definition updateTicket_payload :: "form_data \<Rightarrow> (jsstring \<times> json_value) list" where
  "updateTicket_payload formData =
     [(js ''title'', JString (trim (fd_title formData)))] @
     (case fd_status formData of
        Some st \<Rightarrow> [(js ''status'', JString (status_string st))]
      | None \<Rightarrow> []) @
     optional_fields formData"

text \<open>The decimal digits of a number that is an integer, as template literals print it.\<close>

function nat_digits :: "nat \<Rightarrow> jsstring" where
  "nat_digits n =
     (if n < 10 then [of_nat (48 + n)] else nat_digits (n div 10) @ [of_nat (48 + n mod 10)])"
  by pat_completeness auto
termination
  by (relation "measure id") auto

declare nat_digits.simps [simp del]

definition int_toString :: "int \<Rightarrow> jsstring" where
  "int_toString i = (if i < 0 then js ''-'' @ nat_digits (nat (- i)) else nat_digits (nat i))"

text \<open>
  The request \<open>createTicket\<close> issues for the form, and the request \<open>updateTicket\<close>
  issues: none when no ticket is being edited (\<open>editingTicket\<close> is \<open>null\<close>), else the
  \<open>PUT\<close> to the ticket of that id. What the operations do with the response does not
  change the request.
\<close>

definition createTicket :: "jsstring \<Rightarrow> form_data \<Rightarrow> http_request list" where
  "createTicket API_URL formData =
     [\<lparr>req_method = js ''POST'',
       req_url = API_URL @ js ''/tickets/'',
       req_headers = [(js ''Content-Type'', js ''application/json'')],
       req_body = JsonText (JObject (createTicket_payload formData))\<rparr>]"

definition updateTicket :: "jsstring \<Rightarrow> int option \<Rightarrow> form_data \<Rightarrow> http_request list" where
  "updateTicket API_URL editingTicket_id formData =
     (case editingTicket_id of
        None \<Rightarrow> []
      | Some editing_id \<Rightarrow>
          [\<lparr>req_method = js ''PUT'',
            req_url = API_URL @ js ''/tickets/'' @ int_toString editing_id,
            req_headers = [(js ''Content-Type'', js ''application/json'')],
            req_body = JsonText (JObject (updateTicket_payload formData))\<rparr>])"

section \<open>Notions used by the properties of the projection\<close>

text \<open>
  The shape every \<open>eventMap\<close> built by the projection has: one entry for a key, and in
  the bucket of a key only events of that date.
\<close>

definition bucketed :: "event_map \<Rightarrow> bool" where
  "bucketed m \<longleftrightarrow> distinct (map fst m) \<and> (\<forall>(k, es) \<in> set m. \<forall>e \<in> set es. date e = k)"

text \<open>
  \<open>e\<close> is an event object that the \<open>forEach\<close> body builds for the ticket \<open>t\<close>: the one
  of its start date, or the one of its end date.
\<close>

definition event_of_ticket ::
  "(jsstring \<Rightarrow> jsstring) \<Rightarrow> ticket \<Rightarrow> calendar_event \<Rightarrow> bool" where
  "event_of_ticket toLowerCase t e \<longleftrightarrow>
     (\<exists>s c. s \<noteq> [] \<and> getEventColor toLowerCase t = Inr c \<and>
        (start_date t = Some s \<and> e = make_event (js ''start-'') t (date_part s) c \<or>
         end_date t = Some s \<and> end_date t \<noteq> start_date t \<and>
           e = make_event (js ''end-'') t (date_part s) c))"

section \<open>Example inputs\<close>

definition example_ticket :: "TicketStatus \<Rightarrow> Priority \<Rightarrow> label list option \<Rightarrow> ticket" where
  "example_ticket st pr ls =
     \<lparr>ticket_id = js ''a'', title = js ''Plan sprint'', start_date = None, end_date = None,
      assignee = None, status = st, priority = pr, estimated_hours = None,
      ticket_project = None, labels = ls, assignee_user = None\<rparr>"

definition example_label :: "jsstring option \<Rightarrow> label" where
  "example_label c = \<lparr>label_id = js ''l1'', label_name = js ''bug'', label_color = c\<rparr>"

text \<open>A ticket that starts on one day and ends on the next.\<close>

definition example_dated :: ticket where
  "example_dated =
     (example_ticket Open NoPriority None)
       \<lparr>start_date := Some (js ''2025-01-02T10:00''), end_date := Some (js ''2025-01-03'')\<rparr>"

text \<open>States and responses of the voice assistant.\<close>

definition example_recording :: voice_state where
  "example_recording =
     initial_state\<lparr>audioBlob := Some \<lparr>blob_type = js ''audio/webm'', blob_bytes = [26, 69]\<rparr>\<rparr>"

definition example_transcribed :: voice_state where
  "example_transcribed = initial_state\<lparr>transcript := js ''Ship the calendar on Friday''\<rparr>"

definition example_server_error :: fetch_outcome where
  "example_server_error =
     FetchResolves
       \<lparr>ok = False, resp_status = js ''500'', resp_statusText = js ''Internal Server Error'',
        json = JsonResolves
          \<lparr>detail = None, message = Some (js ''model unavailable''),
           resp_transcript = None, json_text = js ''{message: model unavailable}''\<rparr>\<rparr>"

definition example_network_error :: fetch_outcome where
  "example_network_error = FetchRejects (TypeError (js ''Failed to fetch''))"

text \<open>Two months as the platform reports them: November 2026 starts on a Sunday, August 2026
  on a Saturday.\<close>

definition november_2026 :: month_dates where
  "november_2026 = \<lparr>lastDay_getDate = 30, firstDay_getDay = 0, prevMonthLast_getDate = 31\<rparr>"

definition august_2026 :: month_dates where
  "august_2026 = \<lparr>lastDay_getDate = 31, firstDay_getDay = 6, prevMonthLast_getDate = 31\<rparr>"

text \<open>A form with padded fields and a blank summary.\<close>

definition example_form :: form_data where
  "example_form =
     \<lparr>fd_title = js ''  Fix login '', fd_summary = Some (js ''   ''),
      fd_start_date = Some (js ''2025-01-02''), fd_end_date = None,
      fd_assignee = Some (js '' Ana''), fd_status = Some Open\<rparr>"

section \<open>Properties\<close>

subsection \<open>Colours: the palette index is always in range\<close>

lemma hashString_nonneg: "0 \<le> hashString s"
  by (simp add: hashString_def)

lemma js_rem_nonneg: "0 \<le> a \<Longrightarrow> 0 < b \<Longrightarrow> js_rem a b = a mod b"
  by (cases "a = 0") (simp_all add: js_rem_def)

lemma length_COLOR_PALETTE: "length COLOR_PALETTE = 20"
  by (simp add: COLOR_PALETTE_def)

lemma length_user_colors: "length user_colors = 16"
  by (simp add: user_colors_def)

lemma palette_hash_mod: "palette_hash s = hashString s mod 20"
  by (simp add: palette_hash_def js_rem_nonneg hashString_nonneg length_COLOR_PALETTE)

lemma in_progress_index:
  "js_rem (palette_hash s + 1) 20 = (hashString s mod 20 + 1) mod 20"
  by (simp add: js_rem_nonneg palette_hash_mod)

lemma palette_color_defined:
  "array_get COLOR_PALETTE (palette_hash s) = Some (COLOR_PALETTE ! nat (hashString s mod 20))"
  by (simp add: array_get_def palette_hash_mod length_COLOR_PALETTE)

lemma in_progress_color_defined:
  "array_get COLOR_PALETTE (js_rem (palette_hash s + 1) (int (length COLOR_PALETTE))) =
     Some (COLOR_PALETTE ! nat ((hashString s mod 20 + 1) mod 20))"
  by (simp add: array_get_def in_progress_index length_COLOR_PALETTE)

lemma getEventColor_total: "\<exists>c. getEventColor lw t = Inr c"
  by (simp add: getEventColor_def palette_color_defined in_progress_color_defined Let_def
      split: option.split Priority.split TicketStatus.split)

lemma hashString_a: "hashString (js ''a'') = 97"
  by (simp add: hashString_def js_def toInt32_def charCode_def)

text \<open>
  Palette indexing is safe: \<open>hashString\<close> returns a non-negative number for every string,
  so the palette index \<open>hashString(id) % COLOR_PALETTE.length\<close> lies in \<open>[0, 20)\<close>; both
  palette reads of \<open>getEventColor\<close> (at the index, and at the next index for a ticket in
  progress) find an entry, and \<open>getEventColor\<close> never throws.
\<close>

lemma palette_reads_in_range:
  "0 \<le> hashString str \<and>
   0 \<le> palette_hash str \<and> palette_hash str < int (length COLOR_PALETTE) \<and>
   length COLOR_PALETTE = 20 \<and>
   (\<exists>entry. array_get COLOR_PALETTE (palette_hash str) = Some entry) \<and>
   (\<exists>entry. array_get COLOR_PALETTE
               (js_rem (palette_hash str + 1) (int (length COLOR_PALETTE))) = Some entry) \<and>
   (\<exists>c. getEventColor toLowerCase t = Inr c)"
proof -
  have "0 \<le> palette_hash str \<and> palette_hash str < int (length COLOR_PALETTE)"
    by (simp add: palette_hash_mod length_COLOR_PALETTE)
  then show ?thesis
    using getEventColor_total [of toLowerCase t] hashString_nonneg [of str]
      palette_color_defined [of str] in_progress_color_defined [of str] length_COLOR_PALETTE
    by blast
qed

text \<open>
  For an id that is not negative, \<open>getUserColor\<close> returns a colour of its palette, and
  the ticket colour hash (\<open>hashString\<close>, then the palette read) returns an entry of
  \<open>COLOR_PALETTE\<close> for every string id.
\<close>

lemma getUserColor_nonneg:
  assumes "0 \<le> userId"
  shows "\<exists>c \<in> set user_colors. getUserColor userId = Some c"
proof -
  have "js_rem userId 16 = userId mod 16"
    using assms by (simp add: js_rem_nonneg)
  then have "getUserColor userId = Some (user_colors ! nat (userId mod 16))"
    by (simp add: getUserColor_def array_get_def length_user_colors)
  moreover have "user_colors ! nat (userId mod 16) \<in> set user_colors"
    by (rule nth_mem) (simp add: length_user_colors nat_less_iff)
  ultimately show ?thesis by blast
qed

lemma ticket_hash_color_in_palette:
  "\<exists>entry \<in> set COLOR_PALETTE. array_get COLOR_PALETTE (palette_hash str) = Some entry"
proof -
  have "COLOR_PALETTE ! nat (hashString str mod 20) \<in> set COLOR_PALETTE"
    by (rule nth_mem) (simp add: length_COLOR_PALETTE nat_less_iff)
  then show ?thesis
    by (simp add: palette_color_defined)
qed


lemma example_ticket_sel:
  "ticket_id (example_ticket st pr ls) = js ''a''"
  "status (example_ticket st pr ls) = st"
  "priority (example_ticket st pr ls) = pr"
  "labels (example_ticket st pr ls) = ls"
  by (simp_all add: example_ticket_def)

lemma first_label_color_example:
  "first_label_color (example_ticket st pr None) = None"
  "c \<noteq> [] \<Longrightarrow> first_label_color (example_ticket st pr (Some [example_label (Some c)])) = Some c"
  by (simp_all add: first_label_color_def example_ticket_sel example_label_def)

lemma palette_17: "pe_className (COLOR_PALETTE ! 17) = js ''bg-blue-600''"
  by (simp add: COLOR_PALETTE_def)

lemma palette_18: "pe_className (COLOR_PALETTE ! 18) = js ''bg-green-600''"
  by (simp add: COLOR_PALETTE_def)

lemma colorMap_get_own:
  "key \<notin> set object_prototype_names \<Longrightarrow>
   (case colorMap_get key of Some v \<Rightarrow> v | None \<Rightarrow> Str (js ''bg-slate-500'')) =
     Str (case map_of colorMap key of Some cls \<Rightarrow> cls | None \<Rightarrow> js ''bg-slate-500'')"
  by (simp add: colorMap_get_def split: option.split)

text \<open>
  Claim C2, at a closed ticket with no label and no priority: its colour is
  \<open>bg-slate-600\<close>, not the palette entry of its id's hash (\<open>bg-blue-600\<close> for the id
  \<open>a\<close>).
\<close>

theorem closed_ticket_color_not_from_palette:
  "getEventColor toLowerCase_ascii (example_ticket Closed NoPriority None) \<noteq>
     Inr \<lparr>className = Str (pe_className (COLOR_PALETTE ! nat (js_rem (hashString (js ''a'')) 20))),
          style_backgroundColor = None\<rparr>"
proof -
  have "getEventColor toLowerCase_ascii (example_ticket Closed NoPriority None) =
          Inr \<lparr>className = Str (js ''bg-slate-600''), style_backgroundColor = None\<rparr>"
    by (simp add: getEventColor_def first_label_color_example example_ticket_sel)
  moreover have "pe_className (COLOR_PALETTE ! nat (js_rem (hashString (js ''a'')) 20)) = js ''bg-blue-600''"
    by (simp add: hashString_a js_rem_def palette_17)
  moreover have "js ''bg-slate-600'' \<noteq> js ''bg-blue-600''"
    by (simp add: js_def)
  ultimately show ?thesis by simp
qed

text \<open>
  Claim C2, amended. When the first label of the ticket has a non-empty colour, that
  colour decides: a colour starting with \<open>#\<close> becomes the inline background colour, any
  other whose lower-cased name is not a property name that objects inherit is looked up
  by that name, with \<open>bg-slate-500\<close> for an unknown name.
  Otherwise the priorities urgent, high, medium and low have their fixed colours.
  Otherwise the status decides: an open ticket gets the palette entry at
  \<open>hashString(id) % 20\<close>, a ticket in progress the entry after it (cyclically), a
  resolved ticket \<open>bg-green-500\<close> and a closed ticket \<open>bg-slate-600\<close>.
\<close>

theorem getEventColor_by_label_priority_status:
  "(first_label_color t = Some labelColor \<longleftrightarrow>
      (\<exists>l ls. labels t = Some (l # ls) \<and> label_color l = Some labelColor \<and> labelColor \<noteq> [])) \<and>
   (first_label_color t = Some labelColor \<and> startsWith_hash labelColor \<longrightarrow>
      getEventColor toLowerCase t =
        Inr \<lparr>className = Str [], style_backgroundColor = Some labelColor\<rparr>) \<and>
   (first_label_color t = Some labelColor \<and> \<not> startsWith_hash labelColor \<and>
    toLowerCase labelColor \<notin> set object_prototype_names \<longrightarrow>
      getEventColor toLowerCase t =
        Inr \<lparr>className = Str (case map_of colorMap (toLowerCase labelColor) of
                                  Some cls \<Rightarrow> cls | None \<Rightarrow> js ''bg-slate-500''),
             style_backgroundColor = None\<rparr>) \<and>
   (first_label_color t = None \<and> priority t = Urgent \<longrightarrow>
      getEventColor toLowerCase t =
        Inr \<lparr>className = Str (js ''bg-red-500''), style_backgroundColor = None\<rparr>) \<and>
   (first_label_color t = None \<and> priority t = High \<longrightarrow>
      getEventColor toLowerCase t =
        Inr \<lparr>className = Str (js ''bg-orange-500''), style_backgroundColor = None\<rparr>) \<and>
   (first_label_color t = None \<and> priority t = Medium \<longrightarrow>
      getEventColor toLowerCase t =
        Inr \<lparr>className = Str (js ''bg-yellow-500''), style_backgroundColor = None\<rparr>) \<and>
   (first_label_color t = None \<and> priority t = Low \<longrightarrow>
      getEventColor toLowerCase t =
        Inr \<lparr>className = Str (js ''bg-blue-300''), style_backgroundColor = None\<rparr>) \<and>
   (first_label_color t = None \<and> priority t = NoPriority \<and> status t = Open \<longrightarrow>
      getEventColor toLowerCase t =
        Inr \<lparr>className = Str (pe_className (COLOR_PALETTE ! nat (hashString (ticket_id t) mod 20))),
             style_backgroundColor = None\<rparr>) \<and>
   (first_label_color t = None \<and> priority t = NoPriority \<and> status t = InProgress \<longrightarrow>
      getEventColor toLowerCase t =
        Inr \<lparr>className =
               Str (pe_className (COLOR_PALETTE ! nat ((hashString (ticket_id t) mod 20 + 1) mod 20))),
             style_backgroundColor = None\<rparr>) \<and>
   (first_label_color t = None \<and> priority t = NoPriority \<and> status t = Resolved \<longrightarrow>
      getEventColor toLowerCase t =
        Inr \<lparr>className = Str (js ''bg-green-500''), style_backgroundColor = None\<rparr>) \<and>
   (first_label_color t = None \<and> priority t = NoPriority \<and> status t = Closed \<longrightarrow>
      getEventColor toLowerCase t =
        Inr \<lparr>className = Str (js ''bg-slate-600''), style_backgroundColor = None\<rparr>)"
proof -
  have first: "first_label_color t = Some labelColor \<longleftrightarrow>
      (\<exists>l ls. labels t = Some (l # ls) \<and> label_color l = Some labelColor \<and> labelColor \<noteq> [])"
    by (auto simp: first_label_color_def split: option.splits list.splits)
  have rest: "getEventColor toLowerCase t =
     (case first_label_color t of
        Some c \<Rightarrow>
          (if startsWith_hash c then Inr \<lparr>className = Str [], style_backgroundColor = Some c\<rparr>
           else Inr \<lparr>className = (case colorMap_get (toLowerCase c) of
                             Some v \<Rightarrow> v | None \<Rightarrow> Str (js ''bg-slate-500'')),
                     style_backgroundColor = None\<rparr>)
      | None \<Rightarrow>
          (case priority t of
             Urgent \<Rightarrow> Inr \<lparr>className = Str (js ''bg-red-500''), style_backgroundColor = None\<rparr>
           | High \<Rightarrow> Inr \<lparr>className = Str (js ''bg-orange-500''), style_backgroundColor = None\<rparr>
           | Medium \<Rightarrow> Inr \<lparr>className = Str (js ''bg-yellow-500''), style_backgroundColor = None\<rparr>
           | Low \<Rightarrow> Inr \<lparr>className = Str (js ''bg-blue-300''), style_backgroundColor = None\<rparr>
           | NoPriority \<Rightarrow>
               (case status t of
                  Open \<Rightarrow> Inr \<lparr>className = Str (pe_className (COLOR_PALETTE ! nat (hashString (ticket_id t) mod 20))),
                               style_backgroundColor = None\<rparr>
                | InProgress \<Rightarrow> Inr \<lparr>className = Str (pe_className (COLOR_PALETTE ! nat ((hashString (ticket_id t) mod 20 + 1) mod 20))),
                               style_backgroundColor = None\<rparr>
                | Resolved \<Rightarrow> Inr \<lparr>className = Str (js ''bg-green-500''), style_backgroundColor = None\<rparr>
                | Closed \<Rightarrow> Inr \<lparr>className = Str (js ''bg-slate-600''), style_backgroundColor = None\<rparr>)))"
    by (simp add: getEventColor_def palette_color_defined in_progress_color_defined Let_def
        split: option.split Priority.split TicketStatus.split)
  show ?thesis
    by (intro conjI impI, rule first) (simp_all add: rest colorMap_get_own)
qed

theorem getEventColor_by_label_priority_status_witness:
  "getEventColor toLowerCase_ascii
      (example_ticket Open Urgent (Some [example_label (Some (js ''#ff0000''))])) =
     Inr \<lparr>className = Str [], style_backgroundColor = Some (js ''#ff0000'')\<rparr> \<and>
   getEventColor toLowerCase_ascii
      (example_ticket Open Urgent (Some [example_label (Some (js ''Pink''))])) =
     Inr \<lparr>className = Str (js ''bg-pink-500''), style_backgroundColor = None\<rparr> \<and>
   getEventColor toLowerCase_ascii (example_ticket Open Urgent None) =
     Inr \<lparr>className = Str (js ''bg-red-500''), style_backgroundColor = None\<rparr> \<and>
   getEventColor toLowerCase_ascii (example_ticket Open NoPriority None) =
     Inr \<lparr>className = Str (js ''bg-blue-600''), style_backgroundColor = None\<rparr> \<and>
   getEventColor toLowerCase_ascii (example_ticket InProgress NoPriority None) =
     Inr \<lparr>className = Str (js ''bg-green-600''), style_backgroundColor = None\<rparr> \<and>
   getEventColor toLowerCase_ascii (example_ticket Closed NoPriority None) =
     Inr \<lparr>className = Str (js ''bg-slate-600''), style_backgroundColor = None\<rparr> \<and>
   getEventColor toLowerCase_ascii (example_ticket Resolved NoPriority None) =
     Inr \<lparr>className = Str (js ''bg-green-500''), style_backgroundColor = None\<rparr> \<and>
   getEventColor toLowerCase_ascii (example_ticket Open High None) =
     Inr \<lparr>className = Str (js ''bg-orange-500''), style_backgroundColor = None\<rparr> \<and>
   getEventColor toLowerCase_ascii (example_ticket Open Medium None) =
     Inr \<lparr>className = Str (js ''bg-yellow-500''), style_backgroundColor = None\<rparr> \<and>
   getEventColor toLowerCase_ascii (example_ticket Open Low None) =
     Inr \<lparr>className = Str (js ''bg-blue-300''), style_backgroundColor = None\<rparr>"
proof -
  have hex: "js ''#ff0000'' \<noteq> [] \<and> startsWith_hash (js ''#ff0000'')"
    by (simp add: js_def startsWith_hash_def)
  have pink: "js ''Pink'' \<noteq> [] \<and> \<not> startsWith_hash (js ''Pink'') \<and>
      toLowerCase_ascii (js ''Pink'') \<notin> set object_prototype_names \<and>
      map_of colorMap (toLowerCase_ascii (js ''Pink'')) = Some (js ''bg-pink-500'')"
    by (simp add: js_def startsWith_hash_def toLowerCase_ascii_def colorMap_def
        object_prototype_names_def)
  have c1: "getEventColor toLowerCase_ascii
      (example_ticket Open Urgent (Some [example_label (Some (js ''#ff0000''))])) =
     Inr \<lparr>className = Str [], style_backgroundColor = Some (js ''#ff0000'')\<rparr>"
    using getEventColor_by_label_priority_status
      [of "example_ticket Open Urgent (Some [example_label (Some (js ''#ff0000''))])"
          "js ''#ff0000''" toLowerCase_ascii] hex
    by (simp add: first_label_color_example)
  have c2: "getEventColor toLowerCase_ascii
      (example_ticket Open Urgent (Some [example_label (Some (js ''Pink''))])) =
     Inr \<lparr>className = Str (js ''bg-pink-500''), style_backgroundColor = None\<rparr>"
    using getEventColor_by_label_priority_status
      [of "example_ticket Open Urgent (Some [example_label (Some (js ''Pink''))])"
          "js ''Pink''" toLowerCase_ascii] pink
    by (simp add: first_label_color_example)
  have c3: "getEventColor toLowerCase_ascii (example_ticket Open Urgent None) =
     Inr \<lparr>className = Str (js ''bg-red-500''), style_backgroundColor = None\<rparr>"
    using getEventColor_by_label_priority_status [of "example_ticket Open Urgent None" "[]" toLowerCase_ascii]
    by (simp add: first_label_color_example example_ticket_sel)
  have c4: "getEventColor toLowerCase_ascii (example_ticket Open NoPriority None) =
     Inr \<lparr>className = Str (js ''bg-blue-600''), style_backgroundColor = None\<rparr>"
    using getEventColor_by_label_priority_status [of "example_ticket Open NoPriority None" "[]" toLowerCase_ascii]
    by (simp add: first_label_color_example example_ticket_sel hashString_a palette_17)
  have c5: "getEventColor toLowerCase_ascii (example_ticket InProgress NoPriority None) =
     Inr \<lparr>className = Str (js ''bg-green-600''), style_backgroundColor = None\<rparr>"
    using getEventColor_by_label_priority_status [of "example_ticket InProgress NoPriority None" "[]" toLowerCase_ascii]
    by (simp add: first_label_color_example example_ticket_sel hashString_a palette_18)
  have c6: "getEventColor toLowerCase_ascii (example_ticket Closed NoPriority None) =
     Inr \<lparr>className = Str (js ''bg-slate-600''), style_backgroundColor = None\<rparr>"
    using getEventColor_by_label_priority_status [of "example_ticket Closed NoPriority None" "[]" toLowerCase_ascii]
    by (simp add: first_label_color_example example_ticket_sel)
  have c7: "getEventColor toLowerCase_ascii (example_ticket Resolved NoPriority None) =
     Inr \<lparr>className = Str (js ''bg-green-500''), style_backgroundColor = None\<rparr>"
    using getEventColor_by_label_priority_status [of "example_ticket Resolved NoPriority None" "[]" toLowerCase_ascii]
    by (simp add: first_label_color_example example_ticket_sel)
  have c8: "getEventColor toLowerCase_ascii (example_ticket Open High None) =
     Inr \<lparr>className = Str (js ''bg-orange-500''), style_backgroundColor = None\<rparr>"
    using getEventColor_by_label_priority_status [of "example_ticket Open High None" "[]" toLowerCase_ascii]
    by (simp add: first_label_color_example example_ticket_sel)
  have c9: "getEventColor toLowerCase_ascii (example_ticket Open Medium None) =
     Inr \<lparr>className = Str (js ''bg-yellow-500''), style_backgroundColor = None\<rparr>"
    using getEventColor_by_label_priority_status [of "example_ticket Open Medium None" "[]" toLowerCase_ascii]
    by (simp add: first_label_color_example example_ticket_sel)
  have c10: "getEventColor toLowerCase_ascii (example_ticket Open Low None) =
     Inr \<lparr>className = Str (js ''bg-blue-300''), style_backgroundColor = None\<rparr>"
    using getEventColor_by_label_priority_status [of "example_ticket Open Low None" "[]" toLowerCase_ascii]
    by (simp add: first_label_color_example example_ticket_sel)
  from c1 c2 c3 c4 c5 c6 c7 c8 c9 c10 show ?thesis by blast
qed

text \<open>
  Claim C9: \<open>getEventColor\<close> returns a defined colour for every ticket. The palette reads
  are in range (\<open>palette_reads_in_range\<close>), but for a ticket whose first label has the colour
  \<open>Constructor\<close> the function returns neither a colour class nor an inline style:
  \<open>colorMap["constructor"]\<close> is the function every object inherits, it is truthy, so the
  fallback \<open>|| "bg-slate-500"\<close> is not taken and \<open>className\<close> is that function.
\<close>

theorem getEventColor_constructor_label:
  "getEventColor toLowerCase_ascii
      (example_ticket Open NoPriority (Some [example_label (Some (js ''Constructor''))])) =
     Inr \<lparr>className = Inherited (js ''constructor''), style_backgroundColor = None\<rparr>"
proof -
  have label: "js ''Constructor'' \<noteq> []" "\<not> startsWith_hash (js ''Constructor'')"
    "toLowerCase_ascii (js ''Constructor'') = js ''constructor''"
    by (simp_all add: js_def startsWith_hash_def toLowerCase_ascii_def)
  have "colorMap_get (js ''constructor'') = Some (Inherited (js ''constructor''))"
    by (simp add: colorMap_get_def colorMap_def object_prototype_names_def js_def)
  then show ?thesis
    by (simp add: getEventColor_def first_label_color_example label)
qed

subsection \<open>The projection: the event map\<close>

lemma map_set_absent: "map_of m k = None \<Longrightarrow> map_set k v m = m @ [(k, v)]"
  by (induction m) (auto split: if_splits)

lemma allEvents_ensure_bucket: "allEvents (ensure_bucket k m) = allEvents m"
  by (simp add: ensure_bucket_def map_has_def map_set_absent allEvents_def)

lemma map_of_map_set: "map_of (map_set k v m) = (map_of m)(k \<mapsto> v)"
  by (induction m) auto

lemma map_of_ensure_bucket:
  "map_of (ensure_bucket k m) k' =
     (if k' = k \<and> map_of m k = None then Some [] else map_of m k')"
  by (simp add: ensure_bucket_def map_has_def map_of_map_set)

lemma map_of_push_at:
  "map_of (push_at k e m) k' =
     (if k' = k then map_option (\<lambda>es. es @ [e]) (map_of m k) else map_of m k')"
  by (induction m) auto

lemma keys_push_at: "map fst (push_at k e m) = map fst m"
  by (induction m) auto

lemma mset_allEvents_push_at:
  "map_of m k = Some es \<Longrightarrow>
   mset (allEvents (push_at k e m)) = add_mset e (mset (allEvents m))"
  by (induction m) (auto simp: allEvents_def split: if_splits)

lemma bucketed_empty: "bucketed []"
  by (simp add: bucketed_def)

lemma bucketed_ensure_bucket: "bucketed m \<Longrightarrow> bucketed (ensure_bucket k m)"
  by (auto simp: bucketed_def ensure_bucket_def map_has_def map_set_absent map_of_eq_None_iff)

lemma set_push_at:
  "(k', es') \<in> set (push_at k e m) \<Longrightarrow>
   (k', es') \<in> set m \<or> (k' = k \<and> (\<exists>es. (k, es) \<in> set m \<and> es' = es @ [e]))"
  by (induction m) (auto split: if_splits)

lemma bucketed_push_at:
  assumes "bucketed m" and "date e = k"
  shows "bucketed (push_at k e m)"
proof -
  have "date x = k'" if "(k', es') \<in> set (push_at k e m)" and "x \<in> set es'" for k' es' x
  proof -
    from set_push_at [OF that(1)] show ?thesis
    proof
      assume "(k', es') \<in> set m"
      with assms(1) that(2) show ?thesis by (auto simp: bucketed_def)
    next
      assume "k' = k \<and> (\<exists>es. (k, es) \<in> set m \<and> es' = es @ [e])"
      then obtain es where "k' = k" "(k, es) \<in> set m" "es' = es @ [e]" by blast
      with assms that(2) show ?thesis by (auto simp: bucketed_def)
    qed
  qed
  moreover have "distinct (map fst (push_at k e m))"
    using assms(1) by (simp add: keys_push_at bucketed_def)
  ultimately show ?thesis
    unfolding bucketed_def by blast
qed

lemma bucketed_bucket:
  assumes "bucketed m"
  shows "(\<exists>es. map_of m k = Some es \<and> e \<in> set es) \<longleftrightarrow> (e \<in> set (allEvents m) \<and> date e = k)"
proof -
  from assms have d: "distinct (map fst m)"
    and b: "\<And>k es e. (k, es) \<in> set m \<Longrightarrow> e \<in> set es \<Longrightarrow> date e = k"
    by (auto simp: bucketed_def)
  show ?thesis
  proof
    assume "\<exists>es. map_of m k = Some es \<and> e \<in> set es"
    then obtain es where "(k, es) \<in> set m" "e \<in> set es"
      using d by auto
    then show "e \<in> set (allEvents m) \<and> date e = k"
      using b by (force simp: allEvents_def)
  next
    assume r: "e \<in> set (allEvents m) \<and> date e = k"
    then obtain k' es where "(k', es) \<in> set m" "e \<in> set es"
      by (auto simp: allEvents_def)
    with r b d show "\<exists>es. map_of m k = Some es \<and> e \<in> set es"
      by auto
  qed
qed


subsection \<open>The projection: one ticket\<close>

lemma truthy_iff: "truthy x \<longleftrightarrow> (\<exists>s. x = Some s \<and> s \<noteq> [])"
  by (cases x) auto

lemma get_push_ensure_bucket:
  "get_push k e (ensure_bucket k m) = Inr (push_at k e (ensure_bucket k m))"
  by (simp add: get_push_def map_of_ensure_bucket split: option.split)

lemma make_event_sel:
  "date (make_event p t d c) = d"
  "ticketId (make_event p t d c) = ticket_id t"
  "color (make_event p t d c) = c"
  by (simp_all add: make_event_def)

lemma add_start_none: "\<not> truthy (start_date t) \<Longrightarrow> add_start c t em = Inr em"
  by (auto simp: add_start_def truthy_iff split: option.split)

lemma add_start_some:
  assumes "start_date t = Some s" and "s \<noteq> []"
  shows "\<exists>em' es. add_start c t em = Inr em' \<and>
      mset (allEvents em') =
        add_mset (make_event (js ''start-'') t (date_part s) c) (mset (allEvents em)) \<and>
      map_of em' (date_part s) = Some (es @ [make_event (js ''start-'') t (date_part s) c]) \<and>
      (bucketed em \<longrightarrow> bucketed em')"
proof -
  let ?d = "date_part s"
  let ?e = "make_event (js ''start-'') t ?d c"
  let ?m = "ensure_bucket ?d em"
  obtain es where es: "map_of ?m ?d = Some es"
    by (cases "map_of em ?d") (auto simp: map_of_ensure_bucket)
  have "add_start c t em = Inr (push_at ?d ?e ?m)"
    using assms by (simp add: add_start_def get_push_ensure_bucket Let_def)
  moreover have "mset (allEvents (push_at ?d ?e ?m)) = add_mset ?e (mset (allEvents em))"
    using mset_allEvents_push_at [OF es] by (simp add: allEvents_ensure_bucket)
  moreover have "map_of (push_at ?d ?e ?m) ?d = Some (es @ [?e])"
    by (simp add: map_of_push_at es)
  moreover have "bucketed em \<longrightarrow> bucketed (push_at ?d ?e ?m)"
    by (simp add: bucketed_push_at bucketed_ensure_bucket make_event_sel)
  ultimately show ?thesis by blast
qed

lemma add_end_skip:
  "\<not> truthy (end_date t) \<or> end_date t = start_date t \<Longrightarrow> add_end c t em = Inr em"
  by (auto simp: add_end_def truthy_iff split: option.split)

lemma add_end_some:
  assumes "end_date t = Some s" and "s \<noteq> []" and "end_date t \<noteq> start_date t"
  shows "\<exists>em'. add_end c t em = Inr em' \<and> (bucketed em \<longrightarrow> bucketed em') \<and>
      (if \<exists>es e. map_of em (date_part s) = Some es \<and> e \<in> set es \<and> ticketId e = ticket_id t
       then allEvents em' = allEvents em
       else mset (allEvents em') =
              add_mset (make_event (js ''end-'') t (date_part s) c) (mset (allEvents em)))"
proof -
  let ?d = "date_part s"
  let ?e = "make_event (js ''end-'') t ?d c"
  let ?m = "ensure_bucket ?d em"
  obtain es where es: "map_of ?m ?d = Some es"
    and es': "map_of em ?d = None \<and> es = [] \<or> map_of em ?d = Some es"
    by (cases "map_of em ?d") (auto simp: map_of_ensure_bucket)
  show ?thesis
  proof (cases "find (\<lambda>e. ticketId e = ticket_id t) es")
    case None
    then have no: "\<not> (\<exists>es e. map_of em ?d = Some es \<and> e \<in> set es \<and> ticketId e = ticket_id t)"
      using es' by (auto simp: find_None_iff)
    have "add_end c t em = Inr (push_at ?d ?e ?m)"
      using assms None es by (simp add: add_end_def get_push_ensure_bucket Let_def)
    moreover have "mset (allEvents (push_at ?d ?e ?m)) = add_mset ?e (mset (allEvents em))"
      using mset_allEvents_push_at [OF es] by (simp add: allEvents_ensure_bucket)
    moreover have "bucketed em \<longrightarrow> bucketed (push_at ?d ?e ?m)"
      by (simp add: bucketed_push_at bucketed_ensure_bucket make_event_sel)
    ultimately show ?thesis using no by auto
  next
    case (Some existing)
    then have "existing \<in> set es \<and> ticketId existing = ticket_id t"
      by (auto simp: find_Some_iff)
    with es' have yes: "\<exists>es e. map_of em ?d = Some es \<and> e \<in> set es \<and> ticketId e = ticket_id t"
      by auto
    have "add_end c t em = Inr ?m"
      using assms Some es by (simp add: add_end_def Let_def)
    then show ?thesis
      using yes by (auto simp: allEvents_ensure_bucket bucketed_ensure_bucket)
  qed
qed


lemma event_present:
  "make_event p t d c \<in> set evs \<Longrightarrow> \<exists>e \<in> set evs. ticketId e = ticket_id t \<and> date e = d"
  by (rule bexI [of _ "make_event p t d c"]) (simp_all add: make_event_sel)

lemma add_ticket_effect:
  "\<exists>em' new. add_ticket lw em t = Inr em' \<and>
      mset (allEvents em') = mset (allEvents em) + mset new \<and>
      (bucketed em \<longrightarrow> bucketed em') \<and>
      (\<forall>e \<in> set new. event_of_ticket lw t e) \<and>
      length new \<le> 2 \<and>
      (length new = 2 \<longrightarrow>
         (\<exists>s s'. start_date t = Some s \<and> end_date t = Some s' \<and> s \<noteq> [] \<and> s' \<noteq> [] \<and>
                  date_part s \<noteq> date_part s')) \<and>
      distinct (map date new) \<and>
      (bucketed em \<longrightarrow>
         (\<forall>s. s \<noteq> [] \<and> (start_date t = Some s \<or> end_date t = Some s) \<longrightarrow>
              (\<exists>e \<in> set (allEvents em'). ticketId e = ticket_id t \<and> date e = date_part s)))"
  (is "\<exists>em' new. ?P em' new")
proof -
  obtain c where c: "getEventColor lw t = Inr c"
    using getEventColor_total by blast
  let ?start = "\<lambda>s. make_event (js ''start-'') t (date_part s) c"
  let ?end = "\<lambda>s. make_event (js ''end-'') t (date_part s) c"
  have of_start: "event_of_ticket lw t (?start s)" if "start_date t = Some s" "s \<noteq> []" for s
    using that c by (auto simp: event_of_ticket_def)
  have of_end: "event_of_ticket lw t (?end s)"
    if "end_date t = Some s" "s \<noteq> []" "end_date t \<noteq> start_date t" for s
    using that c by (auto simp: event_of_ticket_def)
  show ?thesis
  proof (cases "truthy (start_date t)")
    case True
    then obtain s where s: "start_date t = Some s" "s \<noteq> []"
      by (auto simp: truthy_iff)
    from add_start_some [OF s, of c em] obtain em1 es where
      st: "add_start c t em = Inr em1"
      and st_mset: "mset (allEvents em1) = add_mset (?start s) (mset (allEvents em))"
      and st_bucket: "map_of em1 (date_part s) = Some (es @ [?start s])"
      and st_inv: "bucketed em \<longrightarrow> bucketed em1"
      by blast
    have step: "add_ticket lw em t = add_end c t em1"
      using True c st by (simp add: add_ticket_def)
    have start_in: "?start s \<in> set (allEvents em1)"
      using st_mset by (metis mset_eq_setD union_single_eq_member set_mset_mset)
    show ?thesis
    proof (cases "truthy (end_date t) \<and> end_date t \<noteq> start_date t")
      case False
      then have "add_end c t em1 = Inr em1"
        by (auto intro: add_end_skip)
      moreover have "\<exists>e \<in> set (allEvents em1). ticketId e = ticket_id t \<and> date e = date_part s'"
        if "s' \<noteq> []" "start_date t = Some s' \<or> end_date t = Some s'" for s'
      proof -
        from that False s have "s' = s" by (auto simp: truthy_iff)
        with start_in show ?thesis by (auto intro: event_present)
      qed
      ultimately have "?P em1 [?start s]"
        using step st_mset st_inv of_start [OF s] by simp
      then show ?thesis by blast
    next
      case True
      then obtain s' where s': "end_date t = Some s'" "s' \<noteq> []" "end_date t \<noteq> start_date t"
        by (auto simp: truthy_iff)
      from add_end_some [OF s', of c em1] obtain em2 where
        en: "add_end c t em1 = Inr em2"
        and en_inv: "bucketed em1 \<longrightarrow> bucketed em2"
        and en_eff: "if \<exists>es e. map_of em1 (date_part s') = Some es \<and> e \<in> set es \<and>
                          ticketId e = ticket_id t
                     then allEvents em2 = allEvents em1
                     else mset (allEvents em2) = add_mset (?end s') (mset (allEvents em1))"
        by blast
      show ?thesis
      proof (cases "\<exists>es e. map_of em1 (date_part s') = Some es \<and> e \<in> set es \<and>
                          ticketId e = ticket_id t")
        case True
        with en_eff have same: "allEvents em2 = allEvents em1" by simp
        have "\<exists>e \<in> set (allEvents em2). ticketId e = ticket_id t \<and> date e = date_part x"
          if "bucketed em" "x \<noteq> []" "start_date t = Some x \<or> end_date t = Some x" for x
        proof -
          from that(3) s s' have "x = s \<or> x = s'" by auto
          then show ?thesis
          proof
            assume "x = s"
            with start_in same show ?thesis by (auto intro: event_present)
          next
            assume x: "x = s'"
            from True obtain es0 e0 where "map_of em1 (date_part s') = Some es0" "e0 \<in> set es0"
              "ticketId e0 = ticket_id t" by blast
            moreover have "bucketed em1" using that(1) st_inv by simp
            ultimately have "e0 \<in> set (allEvents em1) \<and> date e0 = date_part s'"
              using bucketed_bucket [of em1 "date_part s'" e0] by blast
            with \<open>ticketId e0 = ticket_id t\<close> same x show ?thesis by auto
          qed
        qed
        then have "?P em2 [?start s]"
          using step en st_mset st_inv en_inv same of_start [OF s] by simp
        then show ?thesis by blast
      next
        case False
        with en_eff have more: "mset (allEvents em2) = add_mset (?end s') (mset (allEvents em1))"
          by simp
        have differ: "date_part s \<noteq> date_part s'"
        proof
          assume "date_part s = date_part s'"
          with st_bucket have "map_of em1 (date_part s') = Some (es @ [?start s])" by simp
          with False show False by (auto simp: make_event_sel)
        qed
        have end_in: "?end s' \<in> set (allEvents em2)" and start_in2: "?start s \<in> set (allEvents em2)"
          using more start_in
          by (metis mset_eq_setD union_single_eq_member set_mset_mset,
              metis insert_iff mset_eq_setD set_mset_add_mset_insert set_mset_mset)
        have "\<exists>e \<in> set (allEvents em2). ticketId e = ticket_id t \<and> date e = date_part x"
          if "x \<noteq> []" "start_date t = Some x \<or> end_date t = Some x" for x
        proof -
          from that(2) s s' have "x = s \<or> x = s'" by auto
          with end_in start_in2 show ?thesis by (auto intro: event_present)
        qed
        then have "?P em2 [?start s, ?end s']"
          using step en st_mset more st_inv en_inv of_start [OF s] of_end [OF s'] differ s s'
          by (simp add: make_event_sel)
        then show ?thesis by blast
      qed
    qed
  next
    case no_start: False
    then have st: "add_start c t em = Inr em"
      by (rule add_start_none)
    show ?thesis
    proof (cases "truthy (end_date t)")
      case False
      with no_start have "add_ticket lw em t = Inr em"
        by (simp add: add_ticket_def)
      moreover have "\<not> (s \<noteq> [] \<and> (start_date t = Some s \<or> end_date t = Some s))" for s
        using False no_start by (auto simp: truthy_iff)
      ultimately have "?P em []" by auto
      then show ?thesis by blast
    next
      case True
      then obtain s' where s': "end_date t = Some s'" "s' \<noteq> []"
        by (auto simp: truthy_iff)
      with no_start have neq: "end_date t \<noteq> start_date t"
        by (auto simp: truthy_iff)
      have step: "add_ticket lw em t = add_end c t em"
        using True c st by (simp add: add_ticket_def)
      from add_end_some [OF s' neq, of c em] obtain em2 where
        en: "add_end c t em = Inr em2"
        and en_inv: "bucketed em \<longrightarrow> bucketed em2"
        and en_eff: "if \<exists>es e. map_of em (date_part s') = Some es \<and> e \<in> set es \<and>
                          ticketId e = ticket_id t
                     then allEvents em2 = allEvents em
                     else mset (allEvents em2) = add_mset (?end s') (mset (allEvents em))"
        by blast
      have only_end: "x = s'" if "x \<noteq> []" "start_date t = Some x \<or> end_date t = Some x" for x
        using that no_start s' by (auto simp: truthy_iff)
      show ?thesis
      proof (cases "\<exists>es e. map_of em (date_part s') = Some es \<and> e \<in> set es \<and>
                          ticketId e = ticket_id t")
        case True
        with en_eff have same: "allEvents em2 = allEvents em" by simp
        have "\<exists>e \<in> set (allEvents em2). ticketId e = ticket_id t \<and> date e = date_part x"
          if "bucketed em" "x \<noteq> []" "start_date t = Some x \<or> end_date t = Some x" for x
        proof -
          from True obtain es0 e0 where "map_of em (date_part s') = Some es0" "e0 \<in> set es0"
            "ticketId e0 = ticket_id t" by blast
          with that(1) have "e0 \<in> set (allEvents em) \<and> date e0 = date_part s'"
            using bucketed_bucket [of em "date_part s'" e0] by blast
          with \<open>ticketId e0 = ticket_id t\<close> same only_end [OF that(2,3)] show ?thesis by auto
        qed
        then have "?P em2 []"
          using step en en_inv same by simp
        then show ?thesis by blast
      next
        case False
        with en_eff have more: "mset (allEvents em2) = add_mset (?end s') (mset (allEvents em))"
          by simp
        then have end_in: "?end s' \<in> set (allEvents em2)"
          by (metis mset_eq_setD union_single_eq_member set_mset_mset)
        have "\<exists>e \<in> set (allEvents em2). ticketId e = ticket_id t \<and> date e = date_part x"
          if "x \<noteq> []" "start_date t = Some x \<or> end_date t = Some x" for x
          using only_end [OF that] end_in by (auto intro: event_present)
        then have "?P em2 [?end s']"
          using step en more en_inv of_end [OF s' neq] by simp
        then show ?thesis by blast
      qed
    qed
  qed
qed


subsection \<open>The projection: all tickets\<close>

lemma event_of_ticket_id: "event_of_ticket lw t e \<Longrightarrow> ticketId e = ticket_id t"
  by (auto simp: event_of_ticket_def make_event_sel)

lemma forEach_tickets_effect:
  "\<exists>em'. forEach_tickets lw ts em = Inr em' \<and>
     (bucketed em \<longrightarrow> bucketed em') \<and>
     set (allEvents em) \<subseteq> set (allEvents em') \<and>
     (\<forall>e \<in> set (allEvents em').
        e \<in> set (allEvents em) \<or> (\<exists>t \<in> set ts. event_of_ticket lw t e)) \<and>
     (bucketed em \<longrightarrow>
        (\<forall>t \<in> set ts. \<forall>s. s \<noteq> [] \<and> (start_date t = Some s \<or> end_date t = Some s) \<longrightarrow>
           (\<exists>e \<in> set (allEvents em'). ticketId e = ticket_id t \<and> date e = date_part s))) \<and>
     (\<forall>i. i \<notin> ticket_id ` set ts \<longrightarrow>
        filter_mset (\<lambda>e. ticketId e = i) (mset (allEvents em')) =
        filter_mset (\<lambda>e. ticketId e = i) (mset (allEvents em)))"
proof (induction ts arbitrary: em)
  case Nil
  then show ?case by simp
next
  case (Cons t ts)
  from add_ticket_effect [of lw em t] obtain em1 new where
    step: "add_ticket lw em t = Inr em1"
    and step_mset: "mset (allEvents em1) = mset (allEvents em) + mset new"
    and step_inv: "bucketed em \<longrightarrow> bucketed em1"
    and step_new: "\<forall>e \<in> set new. event_of_ticket lw t e"
    and step_dates: "bucketed em \<longrightarrow>
         (\<forall>s. s \<noteq> [] \<and> (start_date t = Some s \<or> end_date t = Some s) \<longrightarrow>
              (\<exists>e \<in> set (allEvents em1). ticketId e = ticket_id t \<and> date e = date_part s))"
    by blast
  from Cons.IH [of em1] obtain em' where
    rest: "forEach_tickets lw ts em1 = Inr em'"
    and rest_inv: "bucketed em1 \<longrightarrow> bucketed em'"
    and rest_sub: "set (allEvents em1) \<subseteq> set (allEvents em')"
    and rest_from: "\<forall>e \<in> set (allEvents em').
        e \<in> set (allEvents em1) \<or> (\<exists>t \<in> set ts. event_of_ticket lw t e)"
    and rest_dates: "bucketed em1 \<longrightarrow>
        (\<forall>t \<in> set ts. \<forall>s. s \<noteq> [] \<and> (start_date t = Some s \<or> end_date t = Some s) \<longrightarrow>
           (\<exists>e \<in> set (allEvents em'). ticketId e = ticket_id t \<and> date e = date_part s))"
    and rest_other: "\<forall>i. i \<notin> ticket_id ` set ts \<longrightarrow>
        filter_mset (\<lambda>e. ticketId e = i) (mset (allEvents em')) =
        filter_mset (\<lambda>e. ticketId e = i) (mset (allEvents em1))"
    by blast
  have set1: "set (allEvents em1) = set (allEvents em) \<union> set new"
    using step_mset by (metis set_mset_mset set_mset_union)
  have a: "forEach_tickets lw (t # ts) em = Inr em'"
    using step rest by simp
  have b: "bucketed em \<longrightarrow> bucketed em'"
    using step_inv rest_inv by blast
  have c: "set (allEvents em) \<subseteq> set (allEvents em')"
    using set1 rest_sub by blast
  have d: "\<forall>e \<in> set (allEvents em').
        e \<in> set (allEvents em) \<or> (\<exists>t' \<in> set (t # ts). event_of_ticket lw t' e)"
    using rest_from set1 step_new by auto
  have e: "bucketed em \<longrightarrow>
        (\<forall>t' \<in> set (t # ts). \<forall>s. s \<noteq> [] \<and> (start_date t' = Some s \<or> end_date t' = Some s) \<longrightarrow>
           (\<exists>e \<in> set (allEvents em'). ticketId e = ticket_id t' \<and> date e = date_part s))"
  proof (intro impI ballI allI)
    fix t' s
    assume inv: "bucketed em" and t': "t' \<in> set (t # ts)"
      and s: "s \<noteq> [] \<and> (start_date t' = Some s \<or> end_date t' = Some s)"
    show "\<exists>e \<in> set (allEvents em'). ticketId e = ticket_id t' \<and> date e = date_part s"
    proof (cases "t' = t")
      case True
      with inv s step_dates obtain e where "e \<in> set (allEvents em1)"
        "ticketId e = ticket_id t' \<and> date e = date_part s" by blast
      with rest_sub show ?thesis by blast
    next
      case False
      with t' have "t' \<in> set ts" by simp
      with inv step_inv rest_dates s show ?thesis by blast
    qed
  qed
  have f: "\<forall>i. i \<notin> ticket_id ` set (t # ts) \<longrightarrow>
        filter_mset (\<lambda>e. ticketId e = i) (mset (allEvents em')) =
        filter_mset (\<lambda>e. ticketId e = i) (mset (allEvents em))"
  proof (intro allI impI)
    fix i assume i: "i \<notin> ticket_id ` set (t # ts)"
    then have "\<forall>e \<in> set new. ticketId e \<noteq> i"
      using step_new event_of_ticket_id by fastforce
    then have "filter_mset (\<lambda>e. ticketId e = i) (mset new) = {#}"
      by simp
    then have "filter_mset (\<lambda>e. ticketId e = i) (mset (allEvents em1)) =
        filter_mset (\<lambda>e. ticketId e = i) (mset (allEvents em))"
      by (simp add: step_mset)
    with rest_other i show "filter_mset (\<lambda>e. ticketId e = i) (mset (allEvents em')) =
        filter_mset (\<lambda>e. ticketId e = i) (mset (allEvents em))"
      by simp
  qed
  from a b c d e f show ?case by blast
qed

lemma own_events:
  assumes "distinct (map ticket_id ts)" and "t \<in> set ts"
    and "\<forall>e \<in> set (allEvents em). ticketId e \<noteq> ticket_id t"
    and "forEach_tickets lw ts em = Inr em'"
  shows "\<exists>new. filter_mset (\<lambda>e. ticketId e = ticket_id t) (mset (allEvents em')) = mset new \<and>
      length new \<le> 2 \<and>
      (length new = 2 \<longrightarrow>
         (\<exists>s s'. start_date t = Some s \<and> end_date t = Some s' \<and> s \<noteq> [] \<and> s' \<noteq> [] \<and>
                  date_part s \<noteq> date_part s')) \<and>
      distinct (map date new)"
  using assms
proof (induction ts arbitrary: em)
  case Nil
  then show ?case by simp
next
  case (Cons t' ts)
  from add_ticket_effect [of lw em t'] obtain em1 new where
    step: "add_ticket lw em t' = Inr em1"
    and step_mset: "mset (allEvents em1) = mset (allEvents em) + mset new"
    and step_new: "\<forall>e \<in> set new. event_of_ticket lw t' e"
    and len: "length new \<le> 2"
    and two: "length new = 2 \<longrightarrow>
         (\<exists>s s'. start_date t' = Some s \<and> end_date t' = Some s' \<and> s \<noteq> [] \<and> s' \<noteq> [] \<and>
                  date_part s \<noteq> date_part s')"
    and dist: "distinct (map date new)"
    by blast
  from Cons.prems(4) step have rest: "forEach_tickets lw ts em1 = Inr em'"
    by simp
  have none_before: "filter_mset (\<lambda>e. ticketId e = ticket_id t) (mset (allEvents em)) = {#}"
    using Cons.prems(3) by auto
  show ?case
  proof (cases "t' = t")
    case True
    with Cons.prems(1) have "ticket_id t \<notin> ticket_id ` set ts" by auto
    with forEach_tickets_effect [of lw ts em1] rest
    have "filter_mset (\<lambda>e. ticketId e = ticket_id t) (mset (allEvents em')) =
        filter_mset (\<lambda>e. ticketId e = ticket_id t) (mset (allEvents em1))"
      by auto
    moreover have "filter_mset (\<lambda>e. ticketId e = ticket_id t) (mset new) = mset new"
      using step_new True event_of_ticket_id by (auto simp: filter_mset_eq_conv)
    ultimately have "filter_mset (\<lambda>e. ticketId e = ticket_id t) (mset (allEvents em')) = mset new"
      using step_mset none_before by simp
    with len two dist True show ?thesis by blast
  next
    case False
    with Cons.prems(2) have t: "t \<in> set ts" by simp
    with Cons.prems(1) have "ticket_id t' \<noteq> ticket_id t" by auto
    then have "\<forall>e \<in> set new. ticketId e \<noteq> ticket_id t"
      using step_new event_of_ticket_id by fastforce
    moreover have "set (allEvents em1) = set (allEvents em) \<union> set new"
      using step_mset by (metis set_mset_mset set_mset_union)
    ultimately have "\<forall>e \<in> set (allEvents em1). ticketId e \<noteq> ticket_id t"
      using Cons.prems(3) by auto
    with Cons.IH [of em1] Cons.prems(1) t rest show ?thesis by simp
  qed
qed

subsection \<open>The projection: buckets and bounds\<close>

lemma date_part_examples:
  "date_part (js ''2025-01-02T10:00'') = js ''2025-01-02''"
  "date_part (js ''2025-01-03'') = js ''2025-01-03''"
  by (simp_all add: date_part_def js_def)

lemma example_dated_sel:
  "start_date example_dated = Some (js ''2025-01-02T10:00'')"
  "end_date example_dated = Some (js ''2025-01-03'')"
  "ticket_id example_dated = js ''a''"
  by (simp_all add: example_dated_def example_ticket_def)

lemma example_strings:
  "js ''2025-01-02T10:00'' \<noteq> []" "js ''2025-01-03'' \<noteq> []"
  "js ''2025-01-03'' \<noteq> js ''2025-01-02T10:00''"
  "js ''2025-01-02'' \<noteq> js ''2025-01-03''"
  "js ''2025-01-03'' \<noteq> js ''2025-01-02''"
  by (simp_all add: js_def)

lemma color_example_dated:
  "getEventColor toLowerCase_ascii example_dated =
     Inr \<lparr>className = Str (js ''bg-blue-600''), style_backgroundColor = None\<rparr>"
  by (simp add: example_dated_def example_ticket_def getEventColor_def first_label_color_def
      palette_color_defined hashString_a palette_17)

lemma events_example_dated:
  "events toLowerCase_ascii [example_dated] =
     Inr [make_event (js ''start-'') example_dated (js ''2025-01-02'')
            \<lparr>className = Str (js ''bg-blue-600''), style_backgroundColor = None\<rparr>,
          make_event (js ''end-'') example_dated (js ''2025-01-03'')
            \<lparr>className = Str (js ''bg-blue-600''), style_backgroundColor = None\<rparr>]"
  by (simp add: events_def add_ticket_def color_example_dated add_start_def add_end_def
      example_dated_sel example_strings date_part_examples ensure_bucket_def map_has_def
      get_push_def allEvents_def Let_def)

lemma forEach_tickets_append:
  "forEach_tickets lw (xs @ ys) em =
     (case forEach_tickets lw xs em of Inl err \<Rightarrow> Inl err | Inr em' \<Rightarrow> forEach_tickets lw ys em')"
  by (induction xs arbitrary: em) (auto split: sum.split)

lemma events_skip_undated:
  assumes "\<not> truthy (start_date t)" and "\<not> truthy (end_date t)"
  shows "events lw (pre @ t # post) = events lw (pre @ post)"
proof -
  have "add_ticket lw em t = Inr em" for em
    using assms by (simp add: add_ticket_def)
  then have "forEach_tickets lw (t # post) em = forEach_tickets lw post em" for em
    by simp
  then show ?thesis
    by (simp add: events_def forEach_tickets_append split: sum.split)
qed

text \<open>
  Claim C1. The projection never throws, and buckets the tickets by date. A date is
  present when it is neither \<open>null\<close> nor the empty string. For every ticket of the
  list and each of its present dates (start or end) there is an event of that ticket
  whose \<open>date\<close> is the part of the date string before the first \<open>T\<close>; every event is
  one built for a ticket of the list, from its start date or from an end date that
  differs from the start date, and carries that date part as its \<open>date\<close>; a ticket
  with neither date contributes nothing (the result is the same without it); and
  \<open>getEventsForDate(d)\<close> returns exactly the events whose \<open>date\<close> is \<open>d\<close>.
\<close>

theorem calendar_buckets_tickets_by_date:
  "\<exists>evs. events toLowerCase tickets = Inr evs \<and>
     (\<forall>t \<in> set tickets. \<forall>s. s \<noteq> [] \<and> (start_date t = Some s \<or> end_date t = Some s) \<longrightarrow>
        (\<exists>e \<in> set evs. ticketId e = ticket_id t \<and> date e = date_part s)) \<and>
     (\<forall>e \<in> set evs. \<exists>t \<in> set tickets. event_of_ticket toLowerCase t e) \<and>
     (\<not> truthy (start_date t0) \<and> \<not> truthy (end_date t0) \<longrightarrow>
        events toLowerCase (pre @ t0 # post) = events toLowerCase (pre @ post)) \<and>
     mset (getEventsForDate evs d) = filter_mset (\<lambda>e. date e = d) (mset evs) \<and>
     (\<forall>e \<in> set (getEventsForDate evs d). date e = d)"
proof -
  from forEach_tickets_effect [of toLowerCase tickets "[]"] obtain em where
    run: "forEach_tickets toLowerCase tickets [] = Inr em"
    and from_tickets: "\<forall>e \<in> set (allEvents em).
        e \<in> set (allEvents []) \<or> (\<exists>t \<in> set tickets. event_of_ticket toLowerCase t e)"
    and dates: "bucketed [] \<longrightarrow>
        (\<forall>t \<in> set tickets. \<forall>s. s \<noteq> [] \<and> (start_date t = Some s \<or> end_date t = Some s) \<longrightarrow>
           (\<exists>e \<in> set (allEvents em). ticketId e = ticket_id t \<and> date e = date_part s))"
    by blast
  have "events toLowerCase tickets = Inr (allEvents em)"
    using run by (simp add: events_def)
  moreover have "\<forall>e \<in> set (allEvents em). \<exists>t \<in> set tickets. event_of_ticket toLowerCase t e"
    using from_tickets by (simp add: allEvents_def)
  moreover have "\<forall>t \<in> set tickets. \<forall>s. s \<noteq> [] \<and> (start_date t = Some s \<or> end_date t = Some s) \<longrightarrow>
           (\<exists>e \<in> set (allEvents em). ticketId e = ticket_id t \<and> date e = date_part s)"
    using dates bucketed_empty by blast
  moreover have "\<not> truthy (start_date t0) \<and> \<not> truthy (end_date t0) \<longrightarrow>
        events toLowerCase (pre @ t0 # post) = events toLowerCase (pre @ post)"
    using events_skip_undated by blast
  moreover have "mset (getEventsForDate (allEvents em) d) =
      filter_mset (\<lambda>e. date e = d) (mset (allEvents em))"
    by (simp add: getEventsForDate_def)
  moreover have "\<forall>e \<in> set (getEventsForDate (allEvents em) d). date e = d"
    by (simp add: getEventsForDate_def)
  ultimately show ?thesis by blast
qed

theorem calendar_buckets_tickets_by_date_witness:
  "example_dated \<in> set [example_dated] \<and>
   start_date example_dated = Some (js ''2025-01-02T10:00'') \<and>
   end_date example_dated = Some (js ''2025-01-03'') \<and>
   (\<exists>evs. events toLowerCase_ascii [example_dated] = Inr evs \<and>
      (\<exists>e \<in> set evs. ticketId e = js ''a'' \<and> date e = js ''2025-01-02'') \<and>
      (\<exists>e \<in> set evs. ticketId e = js ''a'' \<and> date e = js ''2025-01-03'') \<and>
      length (getEventsForDate evs (js ''2025-01-02'')) = 1) \<and>
   start_date (example_ticket Open NoPriority None) = None \<and>
   end_date (example_ticket Open NoPriority None) = None \<and>
   events toLowerCase_ascii [example_dated, example_ticket Open NoPriority None] =
     events toLowerCase_ascii [example_dated]"
proof -
  note inst = calendar_buckets_tickets_by_date
    [of toLowerCase_ascii "[example_dated]" "example_ticket Open NoPriority None"
        "[example_dated]" "[]" "js ''2025-01-02''"]
  from inst obtain evs where
    evs: "events toLowerCase_ascii [example_dated] = Inr evs"
    and dates: "\<forall>t \<in> set [example_dated]. \<forall>s.
        s \<noteq> [] \<and> (start_date t = Some s \<or> end_date t = Some s) \<longrightarrow>
        (\<exists>e \<in> set evs. ticketId e = ticket_id t \<and> date e = date_part s)"
    by blast
  have undated: "start_date (example_ticket Open NoPriority None) = None"
    "end_date (example_ticket Open NoPriority None) = None"
    by (simp_all add: example_ticket_def)
  from inst have "\<not> truthy (start_date (example_ticket Open NoPriority None)) \<and>
      \<not> truthy (end_date (example_ticket Open NoPriority None)) \<longrightarrow>
      events toLowerCase_ascii ([example_dated] @ example_ticket Open NoPriority None # []) =
      events toLowerCase_ascii ([example_dated] @ [])"
    by blast
  then have skipped: "events toLowerCase_ascii [example_dated, example_ticket Open NoPriority None] =
      events toLowerCase_ascii [example_dated]"
    by (simp add: undated)
  from dates have "\<exists>e \<in> set evs. ticketId e = ticket_id example_dated \<and>
      date e = date_part (js ''2025-01-02T10:00'')"
    using example_dated_sel example_strings by simp
  moreover from dates have "\<exists>e \<in> set evs. ticketId e = ticket_id example_dated \<and>
      date e = date_part (js ''2025-01-03'')"
    using example_dated_sel example_strings by simp
  moreover have "length (getEventsForDate evs (js ''2025-01-02'')) = 1"
    using evs by (auto simp: events_example_dated getEventsForDate_def make_event_sel example_strings)
  ultimately have "\<exists>evs. events toLowerCase_ascii [example_dated] = Inr evs \<and>
      (\<exists>e \<in> set evs. ticketId e = js ''a'' \<and> date e = js ''2025-01-02'') \<and>
      (\<exists>e \<in> set evs. ticketId e = js ''a'' \<and> date e = js ''2025-01-03'') \<and>
      length (getEventsForDate evs (js ''2025-01-02'')) = 1"
    using evs by (simp add: example_dated_sel date_part_examples)
  with skipped undated show ?thesis
    by (simp add: example_dated_sel)
qed

text \<open>
  Claim C6. Handling one ticket adds at most two events to the map, whatever the map
  holds already: all of them events of that ticket, two only when both dates are present
  and their date parts differ, and never two on the same date. For a list of tickets with
  distinct ids, the events of the result that carry the id of a ticket are therefore at
  most two, two only when both its dates are present with different date parts, and on
  different dates.
\<close>

theorem ticket_projects_onto_at_most_two_dates:
  "(\<exists>eventMap' new.
      add_ticket toLowerCase eventMap t = Inr eventMap' \<and>
      mset (allEvents eventMap') = mset (allEvents eventMap) + mset new \<and>
      (\<forall>e \<in> set new. event_of_ticket toLowerCase t e) \<and>
      length new \<le> 2 \<and>
      (length new = 2 \<longrightarrow>
         (\<exists>s s'. start_date t = Some s \<and> end_date t = Some s' \<and> s \<noteq> [] \<and> s' \<noteq> [] \<and>
                  date_part s \<noteq> date_part s')) \<and>
      distinct (map date new)) \<and>
   (distinct (map ticket_id tickets) \<and> t \<in> set tickets \<longrightarrow>
      (\<exists>evs. events toLowerCase tickets = Inr evs \<and>
         length (filter (\<lambda>e. ticketId e = ticket_id t) evs) \<le> 2 \<and>
         (length (filter (\<lambda>e. ticketId e = ticket_id t) evs) = 2 \<longrightarrow>
            (\<exists>s s'. start_date t = Some s \<and> end_date t = Some s' \<and> s \<noteq> [] \<and> s' \<noteq> [] \<and>
                     date_part s \<noteq> date_part s')) \<and>
         distinct (map date (filter (\<lambda>e. ticketId e = ticket_id t) evs))))"
proof (intro conjI impI)
  show "\<exists>eventMap' new.
      add_ticket toLowerCase eventMap t = Inr eventMap' \<and>
      mset (allEvents eventMap') = mset (allEvents eventMap) + mset new \<and>
      (\<forall>e \<in> set new. event_of_ticket toLowerCase t e) \<and>
      length new \<le> 2 \<and>
      (length new = 2 \<longrightarrow>
         (\<exists>s s'. start_date t = Some s \<and> end_date t = Some s' \<and> s \<noteq> [] \<and> s' \<noteq> [] \<and>
                  date_part s \<noteq> date_part s')) \<and>
      distinct (map date new)"
    using add_ticket_effect [of toLowerCase eventMap t] by blast
next
  assume a: "distinct (map ticket_id tickets) \<and> t \<in> set tickets"
  obtain em where run: "forEach_tickets toLowerCase tickets [] = Inr em"
    using forEach_tickets_effect [of toLowerCase tickets "[]"] by blast
  let ?mine = "filter (\<lambda>e. ticketId e = ticket_id t) (allEvents em)"
  from own_events [of tickets t "[]" toLowerCase em] a run obtain new where
    new: "filter_mset (\<lambda>e. ticketId e = ticket_id t) (mset (allEvents em)) = mset new"
    and len: "length new \<le> 2"
    and two: "length new = 2 \<longrightarrow>
         (\<exists>s s'. start_date t = Some s \<and> end_date t = Some s' \<and> s \<noteq> [] \<and> s' \<noteq> [] \<and>
                  date_part s \<noteq> date_part s')"
    and dist: "distinct (map date new)"
    by (auto simp: allEvents_def)
  have same: "mset ?mine = mset new"
    using new by simp
  then have "length ?mine = length new"
    by (rule mset_eq_length)
  moreover have "mset (map date ?mine) = mset (map date new)"
    using same by (metis mset_map)
  then have "distinct (map date ?mine) \<longleftrightarrow> distinct (map date new)"
    by (rule mset_eq_imp_distinct_iff)
  moreover have "events toLowerCase tickets = Inr (allEvents em)"
    using run by (simp add: events_def)
  ultimately show "\<exists>evs. events toLowerCase tickets = Inr evs \<and>
         length (filter (\<lambda>e. ticketId e = ticket_id t) evs) \<le> 2 \<and>
         (length (filter (\<lambda>e. ticketId e = ticket_id t) evs) = 2 \<longrightarrow>
            (\<exists>s s'. start_date t = Some s \<and> end_date t = Some s' \<and> s \<noteq> [] \<and> s' \<noteq> [] \<and>
                     date_part s \<noteq> date_part s')) \<and>
         distinct (map date (filter (\<lambda>e. ticketId e = ticket_id t) evs))"
    using len two dist by auto
qed

theorem ticket_projects_onto_at_most_two_dates_witness:
  "distinct (map ticket_id [example_dated]) \<and> example_dated \<in> set [example_dated] \<and>
   (\<exists>evs. events toLowerCase_ascii [example_dated] = Inr evs \<and>
      length (filter (\<lambda>e. ticketId e = ticket_id example_dated) evs) = 2 \<and>
      date_part (js ''2025-01-02T10:00'') \<noteq> date_part (js ''2025-01-03'') \<and>
      distinct (map date (filter (\<lambda>e. ticketId e = ticket_id example_dated) evs)))"
proof -
  from ticket_projects_onto_at_most_two_dates
    [of toLowerCase_ascii "[]" example_dated "[example_dated]"]
  obtain evs where
    evs: "events toLowerCase_ascii [example_dated] = Inr evs"
    and two: "length (filter (\<lambda>e. ticketId e = ticket_id example_dated) evs) = 2 \<longrightarrow>
            (\<exists>s s'. start_date example_dated = Some s \<and> end_date example_dated = Some s' \<and>
                     s \<noteq> [] \<and> s' \<noteq> [] \<and> date_part s \<noteq> date_part s')"
    and dist: "distinct (map date (filter (\<lambda>e. ticketId e = ticket_id example_dated) evs))"
    by auto
  have len: "length (filter (\<lambda>e. ticketId e = ticket_id example_dated) evs) = 2"
    using evs by (auto simp: events_example_dated make_event_sel)
  with two have "date_part (js ''2025-01-02T10:00'') \<noteq> date_part (js ''2025-01-03'')"
    by (simp add: example_dated_sel)
  with evs len dist show ?thesis by simp
qed

subsection \<open>Voice assistant: the empty transcript\<close>

lemma or_else_simps:
  "or_else None b = b"
  "or_else (Some []) b = b"
  "a \<noteq> [] \<Longrightarrow> or_else (Some a) b = a"
  by (simp_all add: or_else_def)

text \<open>
  Claim C3. In every state whose transcript is the empty string, \<open>analyzeWithAI\<close> sets
  the error message \<open>No transcript to analyze\<close>, changes nothing else, and returns
  without issuing a request: whatever the network would answer, no \<open>fetch\<close> is made.
\<close>

theorem empty_transcript_rejected:
  "transcript s = [] \<Longrightarrow>
   analyzeWithAI API_URL net s = (s\<lparr>error := js ''No transcript to analyze''\<rparr>, [])"
  by (simp add: analyzeWithAI_def)

theorem empty_transcript_rejected_witness:
  "transcript initial_state = [] \<and>
   snd (analyzeWithAI (js ''http://localhost:8000'') example_server_error initial_state) = [] \<and>
   error (fst (analyzeWithAI (js ''http://localhost:8000'') example_server_error initial_state)) =
     js ''No transcript to analyze''"
proof -
  have empty: "transcript initial_state = []"
    by (simp add: initial_state_def)
  from empty_transcript_rejected [OF empty, of "js ''http://localhost:8000''" example_server_error]
  show ?thesis using empty by simp
qed

subsection \<open>Voice assistant: failures\<close>

lemma transcribe_try_throws:
  "transcribe_try (FetchRejects err) s = Inl err"
  "json r = JsonRejects err \<Longrightarrow> transcribe_try (FetchResolves r) s = Inl err"
  "\<not> ok r \<Longrightarrow> json r = JsonResolves errorData \<Longrightarrow>
     transcribe_try (FetchResolves r) s =
       Inl (Error (or_else (detail errorData) (js ''Transcription failed'')))"
  by (simp_all add: transcribe_try_def)

lemma analyze_try_throws:
  "analyze_try (FetchRejects err) s = Inl err"
  "json r = JsonRejects err \<Longrightarrow> analyze_try (FetchResolves r) s = Inl err"
  "\<not> ok r \<Longrightarrow> json r = JsonResolves responseData \<Longrightarrow>
     analyze_try (FetchResolves r) s =
       Inl (Error
         (or_else (detail responseData)
           (or_else (message responseData)
             (or_else (Some (json_text responseData))
               (js ''Server error: '' @ resp_status r @ js '' '' @ resp_statusText r)))))"
  by (simp_all add: analyze_try_def)

text \<open>
  Claim C4. When the request of a step fails (\<open>fetch\<close> rejects, reading the body
  rejects, or the response is not ok), the operation ends in the state it was called in
  but for three fields: the error message, which is the fixed prefix of the step followed
  by the message of the error (for a response that is not ok: the \<open>detail\<close> of the body,
  with the fallbacks of the step); the processing step, reset to \<open>upload\<close>, its initial
  value; and the busy flag of the step, cleared. The failed request is the only request
  issued: nothing is retried.
\<close>

theorem pipeline_failure_aborts:
  "currentStep initial_state = Upload \<and>
   (fileToTranscribe s = Some f \<and>
    (net = FetchRejects err \<or> net = FetchResolves r \<and> json r = JsonRejects err) \<longrightarrow>
      transcribeAudio API_URL net s =
        (s\<lparr>recordingStatus := Idle, currentStep := Upload,
           error := js ''Transcription failed: '' @ err_message err\<rparr>,
         [transcribe_request API_URL s f])) \<and>
   (fileToTranscribe s = Some f \<and>
    net = FetchResolves r \<and> \<not> ok r \<and> json r = JsonResolves body \<longrightarrow>
      transcribeAudio API_URL net s =
        (s\<lparr>recordingStatus := Idle, currentStep := Upload,
           error := js ''Transcription failed: '' @
                      or_else (detail body) (js ''Transcription failed'')\<rparr>,
         [transcribe_request API_URL s f])) \<and>
   (transcript s \<noteq> [] \<and>
    (net = FetchRejects err \<or> net = FetchResolves r \<and> json r = JsonRejects err) \<longrightarrow>
      analyzeWithAI API_URL net s =
        (s\<lparr>isAnalyzing := False, currentStep := Upload,
           error := js ''AI analysis failed: '' @
                      or_else (Some (err_message err)) (error_toString err)\<rparr>,
         [analyze_request API_URL s])) \<and>
   (transcript s \<noteq> [] \<and>
    net = FetchResolves r \<and> \<not> ok r \<and> json r = JsonResolves body \<longrightarrow>
      analyzeWithAI API_URL net s =
        (s\<lparr>isAnalyzing := False, currentStep := Upload,
           error := js ''AI analysis failed: '' @
                      or_else (detail body)
                        (or_else (message body)
                          (or_else (Some (json_text body))
                            (js ''Server error: '' @ resp_status r @ js '' '' @
                               resp_statusText r)))\<rparr>,
         [analyze_request API_URL s]))"
proof (intro conjI impI)
  show "currentStep initial_state = Upload"
    by (simp add: initial_state_def)
next
  assume "fileToTranscribe s = Some f \<and>
    (net = FetchRejects err \<or> net = FetchResolves r \<and> json r = JsonRejects err)"
  then show "transcribeAudio API_URL net s =
        (s\<lparr>recordingStatus := Idle, currentStep := Upload,
           error := js ''Transcription failed: '' @ err_message err\<rparr>,
         [transcribe_request API_URL s f])"
    by (auto simp: transcribeAudio_def transcribe_try_throws)
next
  assume "fileToTranscribe s = Some f \<and>
    net = FetchResolves r \<and> \<not> ok r \<and> json r = JsonResolves body"
  then show "transcribeAudio API_URL net s =
        (s\<lparr>recordingStatus := Idle, currentStep := Upload,
           error := js ''Transcription failed: '' @
                      or_else (detail body) (js ''Transcription failed'')\<rparr>,
         [transcribe_request API_URL s f])"
    by (simp add: transcribeAudio_def transcribe_try_throws Error_def)
next
  assume "transcript s \<noteq> [] \<and>
    (net = FetchRejects err \<or> net = FetchResolves r \<and> json r = JsonRejects err)"
  then show "analyzeWithAI API_URL net s =
        (s\<lparr>isAnalyzing := False, currentStep := Upload,
           error := js ''AI analysis failed: '' @
                      or_else (Some (err_message err)) (error_toString err)\<rparr>,
         [analyze_request API_URL s])"
    by (auto simp: analyzeWithAI_def analyze_try_throws)
next
  let ?msg = "or_else (detail body)
                        (or_else (message body)
                          (or_else (Some (json_text body))
                            (js ''Server error: '' @ resp_status r @ js '' '' @
                               resp_statusText r)))"
  assume a: "transcript s \<noteq> [] \<and>
    net = FetchResolves r \<and> \<not> ok r \<and> json r = JsonResolves body"
  have "js ''Server error: '' @ resp_status r @ js '' '' @ resp_statusText r \<noteq> []"
    by (simp add: js_def)
  then have "?msg \<noteq> []"
    by (auto simp: or_else_def truthy_iff)
  then have "or_else (Some (err_message (Error ?msg))) (error_toString (Error ?msg)) = ?msg"
    by (simp add: or_else_simps Error_def)
  with a show "analyzeWithAI API_URL net s =
        (s\<lparr>isAnalyzing := False, currentStep := Upload, error := js ''AI analysis failed: '' @ ?msg\<rparr>,
         [analyze_request API_URL s])"
    by (simp add: analyzeWithAI_def analyze_try_throws)
qed


lemma example_recording_file:
  "fileToTranscribe example_recording =
     Some (RecordedBlob \<lparr>blob_type = js ''audio/webm'', blob_bytes = [26, 69]\<rparr>)"
  by (simp add: fileToTranscribe_def example_recording_def initial_state_def)

lemma example_transcribed_transcript:
  "transcript example_transcribed = js ''Ship the calendar on Friday''"
  "js ''Ship the calendar on Friday'' \<noteq> []"
  by (simp_all add: example_transcribed_def js_def)

theorem pipeline_failure_aborts_witness:
  "fileToTranscribe example_recording =
     Some (RecordedBlob \<lparr>blob_type = js ''audio/webm'', blob_bytes = [26, 69]\<rparr>) \<and>
   transcript example_transcribed \<noteq> [] \<and>
   length (snd (transcribeAudio (js ''http://localhost:8000'') example_network_error
                  example_recording)) = 1 \<and>
   currentStep (fst (transcribeAudio (js ''http://localhost:8000'') example_network_error
                  example_recording)) = Upload \<and>
   error (fst (transcribeAudio (js ''http://localhost:8000'') example_network_error
                  example_recording)) = js ''Transcription failed: Failed to fetch'' \<and>
   length (snd (analyzeWithAI (js ''http://localhost:8000'') example_server_error
                  example_transcribed)) = 1 \<and>
   currentStep (fst (analyzeWithAI (js ''http://localhost:8000'') example_server_error
                  example_transcribed)) = Upload \<and>
   error (fst (analyzeWithAI (js ''http://localhost:8000'') example_server_error
                  example_transcribed)) = js ''AI analysis failed: model unavailable''"
proof -
  let ?blob = "RecordedBlob \<lparr>blob_type = js ''audio/webm'', blob_bytes = [26, 69]\<rparr>"
  let ?resp = "\<lparr>ok = False, resp_status = js ''500'', resp_statusText = js ''Internal Server Error'',
        json = JsonResolves
          \<lparr>detail = None, message = Some (js ''model unavailable''),
           resp_transcript = None, json_text = js ''{message: model unavailable}''\<rparr>\<rparr>"
  let ?body = "\<lparr>detail = None, message = Some (js ''model unavailable''),
           resp_transcript = None, json_text = js ''{message: model unavailable}''\<rparr>"
  have t: "transcribeAudio (js ''http://localhost:8000'') example_network_error example_recording =
        (example_recording\<lparr>recordingStatus := Idle, currentStep := Upload,
           error := js ''Transcription failed: '' @ js ''Failed to fetch''\<rparr>,
         [transcribe_request (js ''http://localhost:8000'') example_recording ?blob])"
    using pipeline_failure_aborts
      [of example_recording ?blob example_network_error "TypeError (js ''Failed to fetch'')"
          ?resp "js ''http://localhost:8000''" ?body]
    by (simp add: example_recording_file example_network_error_def TypeError_def)
  have "js ''model unavailable'' \<noteq> []"
    by (simp add: js_def)
  then have a: "analyzeWithAI (js ''http://localhost:8000'') example_server_error example_transcribed =
        (example_transcribed\<lparr>isAnalyzing := False, currentStep := Upload,
           error := js ''AI analysis failed: '' @ js ''model unavailable''\<rparr>,
         [analyze_request (js ''http://localhost:8000'') example_transcribed])"
    using pipeline_failure_aborts
      [of example_transcribed ?blob example_server_error "TypeError (js ''Failed to fetch'')"
          ?resp "js ''http://localhost:8000''" ?body]
    by (simp add: example_transcribed_transcript example_server_error_def or_else_simps)
  have "js ''Transcription failed: '' @ js ''Failed to fetch'' =
      js ''Transcription failed: Failed to fetch''"
    and "js ''AI analysis failed: '' @ js ''model unavailable'' =
      js ''AI analysis failed: model unavailable''"
    by (simp_all add: js_def)
  with t a show ?thesis
    by (simp add: example_recording_file example_transcribed_transcript)
qed

text \<open>
  Claim C7. \<open>transcribeAudio\<close> issues one request when there is audio: a \<open>POST\<close> to
  \<open>/api/voice/transcribe-file\<close> whose body is a form with the single field \<open>file\<close>
  holding the audio. \<open>analyzeWithAI\<close> issues one request when the transcript is not
  empty: a \<open>POST\<close> to \<open>/api/voice/process-meeting\<close> with the JSON content type, whose
  body is the JSON text of the object holding the transcript and a null \<open>project_name\<close>.
  Neither issues a request otherwise.
\<close>

theorem voice_requests_shape:
  "(fileToTranscribe s = Some f \<longrightarrow>
      snd (transcribeAudio API_URL net s) =
        [\<lparr>req_method = js ''POST'',
          req_url = API_URL @ js ''/api/voice/transcribe-file'',
          req_headers = [],
          req_body = FormData
            [\<lparr>entry_name = js ''file'', entry_value = f,
              entry_filename =
                (case uploadedFile s of
                   Some u \<Rightarrow> or_else (Some (file_name u)) (js ''recording.webm'')
                 | None \<Rightarrow> js ''recording.webm'')\<rparr>]\<rparr>]) \<and>
   (fileToTranscribe s = None \<longrightarrow> snd (transcribeAudio API_URL net s) = []) \<and>
   (transcript s \<noteq> [] \<longrightarrow>
      snd (analyzeWithAI API_URL net s) =
        [\<lparr>req_method = js ''POST'',
          req_url = API_URL @ js ''/api/voice/process-meeting'',
          req_headers = [(js ''Content-Type'', js ''application/json'')],
          req_body = JsonText (JObject [(js ''transcript'', JString (transcript s)),
                                        (js ''project_name'', JNull)])\<rparr>]) \<and>
   (transcript s = [] \<longrightarrow> snd (analyzeWithAI API_URL net s) = [])"
  by (simp add: transcribeAudio_def analyzeWithAI_def transcribe_request_def analyze_request_def
      Let_def)

theorem voice_requests_shape_witness:
  "fileToTranscribe example_recording =
     Some (RecordedBlob \<lparr>blob_type = js ''audio/webm'', blob_bytes = [26, 69]\<rparr>) \<and>
   transcript example_transcribed \<noteq> [] \<and>
   snd (transcribeAudio (js ''http://localhost:8000'') example_network_error example_recording) =
     [\<lparr>req_method = js ''POST'',
       req_url = js ''http://localhost:8000/api/voice/transcribe-file'',
       req_headers = [],
       req_body = FormData
         [\<lparr>entry_name = js ''file'',
           entry_value = RecordedBlob \<lparr>blob_type = js ''audio/webm'', blob_bytes = [26, 69]\<rparr>,
           entry_filename = js ''recording.webm''\<rparr>]\<rparr>] \<and>
   snd (analyzeWithAI (js ''http://localhost:8000'') example_network_error example_transcribed) =
     [\<lparr>req_method = js ''POST'',
       req_url = js ''http://localhost:8000/api/voice/process-meeting'',
       req_headers = [(js ''Content-Type'', js ''application/json'')],
       req_body = JsonText (JObject [(js ''transcript'', JString (js ''Ship the calendar on Friday'')),
                                     (js ''project_name'', JNull)])\<rparr>]"
proof -
  let ?blob = "RecordedBlob \<lparr>blob_type = js ''audio/webm'', blob_bytes = [26, 69]\<rparr>"
  have urls: "js ''http://localhost:8000'' @ js ''/api/voice/transcribe-file'' =
        js ''http://localhost:8000/api/voice/transcribe-file''"
      "js ''http://localhost:8000'' @ js ''/api/voice/process-meeting'' =
        js ''http://localhost:8000/api/voice/process-meeting''"
    by (simp_all add: js_def)
  have no_upload: "uploadedFile example_recording = None"
    by (simp add: example_recording_def initial_state_def)
  from voice_requests_shape
    [of example_recording ?blob "js ''http://localhost:8000''" example_network_error]
  have t: "snd (transcribeAudio (js ''http://localhost:8000'') example_network_error
        example_recording) =
     [\<lparr>req_method = js ''POST'',
       req_url = js ''http://localhost:8000/api/voice/transcribe-file'',
       req_headers = [],
       req_body = FormData
         [\<lparr>entry_name = js ''file'', entry_value = ?blob,
           entry_filename = js ''recording.webm''\<rparr>]\<rparr>]"
    using example_recording_file urls no_upload by simp
  from voice_requests_shape
    [of example_transcribed ?blob "js ''http://localhost:8000''" example_network_error]
  have "snd (analyzeWithAI (js ''http://localhost:8000'') example_network_error example_transcribed) =
     [\<lparr>req_method = js ''POST'',
       req_url = js ''http://localhost:8000/api/voice/process-meeting'',
       req_headers = [(js ''Content-Type'', js ''application/json'')],
       req_body = JsonText (JObject [(js ''transcript'', JString (js ''Ship the calendar on Friday'')),
                                     (js ''project_name'', JNull)])\<rparr>]"
    using example_transcribed_transcript urls by simp
  with t show ?thesis
    by (simp add: example_recording_file example_transcribed_transcript)
qed

subsection \<open>The month grid: whole weeks\<close>

lemma prevMonthDays_loop_eq:
  "prevMonthDays_loop i p acc = acc @ map (\<lambda>j. p - j) (rev [0..i])"
proof (induction i p acc rule: prevMonthDays_loop.induct)
  case (1 i p acc)
  show ?case
  proof (cases "i \<ge> 0")
    case True
    then have "[0..i] = [0..i - 1] @ [i]"
      by (simp add: upto_rec2)
    with True "1.IH" show ?thesis
      by (subst prevMonthDays_loop.simps) simp
  next
    case False
    then show ?thesis
      by (subst prevMonthDays_loop.simps) simp
  qed
qed

lemma nextMonthDays_loop_eq: "nextMonthDays_loop i n acc = acc @ [i..n]"
proof (induction i n acc rule: nextMonthDays_loop.induct)
  case (1 i n acc)
  show ?case
  proof (cases "i \<le> n")
    case True
    then have "[i..n] = i # [i + 1..n]"
      by (simp add: upto_rec1)
    with True "1.IH" show ?thesis
      by (subst nextMonthDays_loop.simps) simp
  next
    case False
    then show ?thesis
      by (subst nextMonthDays_loop.simps) simp
  qed
qed

lemma totalCells_least:
  "7 dvd totalCells s d \<and> int (s + d) \<le> totalCells s d \<and> totalCells s d < int (s + d) + 7"
proof -
  define c where "c = \<lceil>real (s + d) / 7\<rceil>"
  define n where "n = int (s + d)"
  have c: "real_of_int c - 1 < real_of_int n / 7 \<and> real_of_int n / 7 \<le> real_of_int c"
    unfolding c_def n_def using ceiling_correct [of "real (s + d) / 7"] by simp
  from c have "real_of_int (c * 7) < real_of_int (n + 7)"
    by simp
  then have less: "c * 7 < n + 7"
    by (simp only: of_int_less_iff)
  from c have "real_of_int n \<le> real_of_int (c * 7)"
    by simp
  then have le: "n \<le> c * 7"
    by (simp only: of_int_le_iff)
  from less le show ?thesis
    by (simp add: totalCells_def c_def n_def)
qed

lemma least_multiple:
  fixes cells m n :: nat
  assumes "7 dvd cells" and "cells < n + 7" and "7 dvd m" and "n \<le> m"
  shows "cells \<le> m"
proof -
  from assms(1) obtain a where a: "cells = 7 * a" by (auto elim: dvdE)
  from assms(3) obtain b where b: "m = 7 * b" by (auto elim: dvdE)
  from assms(2,4) a b have "a \<le> b" by linarith
  with a b show ?thesis by simp
qed


lemma getDaysInMonth_fields:
  "daysInMonth (getDaysInMonth d) = lastDay_getDate d"
  "startingDayOfWeek (getDaysInMonth d) = firstDay_getDay d"
  "prevMonthDays (getDaysInMonth d) =
     map (\<lambda>j. int (prevMonthLast_getDate d) - j) (rev [0..int (firstDay_getDay d) - 1])"
  "nextMonthDays (getDaysInMonth d) =
     [1..totalCells (firstDay_getDay d) (lastDay_getDate d) -
           (int (firstDay_getDay d) + int (lastDay_getDate d))]"
  by (simp_all add: getDaysInMonth_def Let_def prevMonthDays_loop_eq nextMonthDays_loop_eq)

text \<open>
  Claim C8. \<open>getDaysInMonth\<close> returns exactly \<open>startingDayOfWeek\<close> leading day numbers
  of the previous month (its last days, in ascending order) and the trailing day numbers
  \<open>1, 2, ...\<close> of the next month, such that the number of cells (leading days, days of
  the month, trailing days) is the least multiple of 7 that is at least
  \<open>startingDayOfWeek + daysInMonth\<close>; it is the \<open>totalCells\<close> the function computes.
\<close>

theorem month_grid_whole_weeks:
  "length (prevMonthDays (getDaysInMonth d)) = startingDayOfWeek (getDaysInMonth d) \<and>
   startingDayOfWeek (getDaysInMonth d) = firstDay_getDay d \<and>
   daysInMonth (getDaysInMonth d) = lastDay_getDate d \<and>
   7 dvd (length (prevMonthDays (getDaysInMonth d)) + daysInMonth (getDaysInMonth d) +
          length (nextMonthDays (getDaysInMonth d))) \<and>
   startingDayOfWeek (getDaysInMonth d) + daysInMonth (getDaysInMonth d) \<le>
     length (prevMonthDays (getDaysInMonth d)) + daysInMonth (getDaysInMonth d) +
     length (nextMonthDays (getDaysInMonth d)) \<and>
   (\<forall>m. 7 dvd m \<and> startingDayOfWeek (getDaysInMonth d) + daysInMonth (getDaysInMonth d) \<le> m \<longrightarrow>
        length (prevMonthDays (getDaysInMonth d)) + daysInMonth (getDaysInMonth d) +
        length (nextMonthDays (getDaysInMonth d)) \<le> m) \<and>
   int (length (prevMonthDays (getDaysInMonth d)) + daysInMonth (getDaysInMonth d) +
        length (nextMonthDays (getDaysInMonth d))) =
     totalCells (startingDayOfWeek (getDaysInMonth d)) (daysInMonth (getDaysInMonth d)) \<and>
   prevMonthDays (getDaysInMonth d) =
     map (\<lambda>j. int (prevMonthLast_getDate d) - j) (rev [0..int (firstDay_getDay d) - 1]) \<and>
   nextMonthDays (getDaysInMonth d) =
     [1..totalCells (firstDay_getDay d) (lastDay_getDate d) -
           (int (firstDay_getDay d) + int (lastDay_getDate d))]"
proof -
  let ?s = "firstDay_getDay d" and ?n = "lastDay_getDate d"
  let ?g = "getDaysInMonth d"
  let ?cells = "length (prevMonthDays ?g) + daysInMonth ?g + length (nextMonthDays ?g)"
  note total = totalCells_least [of ?s ?n]
  have before: "length (prevMonthDays ?g) = ?s"
    by (simp add: getDaysInMonth_fields)
  have after: "int (length (nextMonthDays ?g)) = totalCells ?s ?n - int (?s + ?n)"
    using total by (simp add: getDaysInMonth_fields)
  have cells: "int ?cells = totalCells ?s ?n"
    using before after by (simp add: getDaysInMonth_fields)
  have "int 7 dvd int ?cells"
    using total cells by simp
  then have dvd: "7 dvd ?cells"
    by (simp only: int_dvd_int_iff)
  have ge: "?s + ?n \<le> ?cells" and lt: "?cells < ?s + ?n + 7"
    using total cells by linarith+
  have least: "?cells \<le> m" if "7 dvd m \<and> ?s + ?n \<le> m" for m
    using least_multiple [OF dvd lt] that by blast
  have shape: "prevMonthDays ?g =
      map (\<lambda>j. int (prevMonthLast_getDate d) - j) (rev [0..int ?s - 1]) \<and>
    nextMonthDays ?g = [1..totalCells ?s ?n - (int ?s + int ?n)]"
    by (simp add: getDaysInMonth_fields)
  have fields: "startingDayOfWeek ?g = ?s \<and> daysInMonth ?g = ?n"
    by (simp add: getDaysInMonth_fields)
  from before cells dvd ge least shape show ?thesis
    unfolding fields [THEN conjunct1] fields [THEN conjunct2] by blast
qed

theorem month_grid_whole_weeks_witness:
  "prevMonthDays (getDaysInMonth august_2026) = [26, 27, 28, 29, 30, 31] \<and>
   nextMonthDays (getDaysInMonth august_2026) = [1, 2, 3, 4, 5] \<and>
   length (prevMonthDays (getDaysInMonth august_2026)) + daysInMonth (getDaysInMonth august_2026) +
     length (nextMonthDays (getDaysInMonth august_2026)) = 42 \<and>
   length (prevMonthDays (getDaysInMonth november_2026)) +
     daysInMonth (getDaysInMonth november_2026) +
     length (nextMonthDays (getDaysInMonth november_2026)) = 35"
proof -
  have aug: "totalCells 6 31 = 42" and nov: "totalCells 0 30 = 35"
    by (simp_all add: totalCells_def)
  have fields:
    "startingDayOfWeek (getDaysInMonth august_2026) = 6"
    "daysInMonth (getDaysInMonth august_2026) = 31"
    "startingDayOfWeek (getDaysInMonth november_2026) = 0"
    "daysInMonth (getDaysInMonth november_2026) = 30"
    by (simp_all add: getDaysInMonth_fields august_2026_def november_2026_def)
  have "int (length (prevMonthDays (getDaysInMonth august_2026)) +
      daysInMonth (getDaysInMonth august_2026) +
      length (nextMonthDays (getDaysInMonth august_2026))) =
      totalCells (startingDayOfWeek (getDaysInMonth august_2026))
        (daysInMonth (getDaysInMonth august_2026))"
    using month_grid_whole_weeks [of august_2026] by blast
  then have a: "length (prevMonthDays (getDaysInMonth august_2026)) +
      daysInMonth (getDaysInMonth august_2026) +
      length (nextMonthDays (getDaysInMonth august_2026)) = 42"
    unfolding fields aug by linarith
  have "int (length (prevMonthDays (getDaysInMonth november_2026)) +
      daysInMonth (getDaysInMonth november_2026) +
      length (nextMonthDays (getDaysInMonth november_2026))) =
      totalCells (startingDayOfWeek (getDaysInMonth november_2026))
        (daysInMonth (getDaysInMonth november_2026))"
    using month_grid_whole_weeks [of november_2026] by blast
  then have n: "length (prevMonthDays (getDaysInMonth november_2026)) +
      daysInMonth (getDaysInMonth november_2026) +
      length (nextMonthDays (getDaysInMonth november_2026)) = 35"
    unfolding fields nov by linarith
  have upto: "[0..5::int] = [0, 1, 2, 3, 4, 5]" "[1..5::int] = [1, 2, 3, 4, 5]"
    by (simp_all add: upto_rec1 [of 0] upto_rec1 [of 1])
  have p: "prevMonthDays (getDaysInMonth august_2026) = [26, 27, 28, 29, 30, 31]"
    by (simp add: getDaysInMonth_fields august_2026_def upto)
  have x: "nextMonthDays (getDaysInMonth august_2026) = [1, 2, 3, 4, 5]"
    by (simp add: getDaysInMonth_fields august_2026_def aug upto)
  from a n p x show ?thesis by blast
qed

subsection \<open>Tickets page: the payload\<close>

lemma trim_Nil_iff: "trim s = [] \<longleftrightarrow> (\<forall>c \<in> set s. is_js_whitespace c)"
proof -
  have "trim s = [] \<longleftrightarrow> (\<forall>c \<in> set (dropWhile is_js_whitespace s). is_js_whitespace c)"
    by (simp add: trim_def dropWhile_eq_Nil_conv)
  also have "\<dots> \<longleftrightarrow> dropWhile is_js_whitespace s = []"
  proof
    assume all: "\<forall>c \<in> set (dropWhile is_js_whitespace s). is_js_whitespace c"
    show "dropWhile is_js_whitespace s = []"
    proof (rule ccontr)
      assume ne: "dropWhile is_js_whitespace s \<noteq> []"
      then have "\<not> is_js_whitespace (hd (dropWhile is_js_whitespace s))"
        by (rule hd_dropWhile)
      moreover from ne have "hd (dropWhile is_js_whitespace s) \<in> set (dropWhile is_js_whitespace s)"
        by (rule hd_in_set)
      ultimately show False using all by blast
    qed
  next
    assume "dropWhile is_js_whitespace s = []"
    then show "\<forall>c \<in> set (dropWhile is_js_whitespace s). is_js_whitespace c"
      by (auto dest: set_dropWhileD)
  qed
  also have "\<dots> \<longleftrightarrow> (\<forall>c \<in> set s. is_js_whitespace c)"
    by (simp add: dropWhile_eq_Nil_conv)
  finally show ?thesis .
qed

lemma payload_keys_differ:
  "js ''title'' \<noteq> js ''status''" "js ''title'' \<noteq> js ''summary''"
  "js ''title'' \<noteq> js ''assignee''" "js ''title'' \<noteq> js ''start_date''"
  "js ''title'' \<noteq> js ''end_date''"
  "js ''status'' \<noteq> js ''summary''" "js ''status'' \<noteq> js ''assignee''"
  "js ''status'' \<noteq> js ''start_date''" "js ''status'' \<noteq> js ''end_date''"
  "js ''summary'' \<noteq> js ''assignee''" "js ''summary'' \<noteq> js ''start_date''"
  "js ''summary'' \<noteq> js ''end_date''"
  "js ''assignee'' \<noteq> js ''start_date''" "js ''assignee'' \<noteq> js ''end_date''"
  "js ''start_date'' \<noteq> js ''end_date''"
  by (simp_all add: js_def)

lemmas payload_keys = payload_keys_differ payload_keys_differ [symmetric]

lemma four_fields_lookup:
  "map_of (field_if a (js ''summary'') va @ field_if b (js ''assignee'') vb @
           field_if c (js ''start_date'') vc @ field_if d (js ''end_date'') vd) k =
     (if k = js ''summary'' \<and> a then Some va
      else if k = js ''assignee'' \<and> b then Some vb
      else if k = js ''start_date'' \<and> c then Some vc
      else if k = js ''end_date'' \<and> d then Some vd
      else None)"
  by (cases a; cases b; cases c; cases d) (simp_all add: field_if_def payload_keys)

lemma four_fields_distinct:
  "distinct (map fst (field_if a (js ''summary'') va @ field_if b (js ''assignee'') vb @
           field_if c (js ''start_date'') vc @ field_if d (js ''end_date'') vd))"
  by (cases a; cases b; cases c; cases d) (simp_all add: field_if_def payload_keys)

lemma four_fields_keys:
  "set (map fst (field_if a (js ''summary'') va @ field_if b (js ''assignee'') vb @
           field_if c (js ''start_date'') vc @ field_if d (js ''end_date'') vd)) \<subseteq>
     {js ''summary'', js ''assignee'', js ''start_date'', js ''end_date''}"
  by (cases a; cases b; cases c; cases d) (simp_all add: field_if_def)

lemma optional_fields_lookup:
  "map_of (optional_fields fd) (js ''title'') = None"
  "map_of (optional_fields fd) (js ''status'') = None"
  "map_of (optional_fields fd) (js ''summary'') =
     (case fd_summary fd of
        Some s \<Rightarrow> if trim s \<noteq> [] then Some (JString (trim s)) else None
      | None \<Rightarrow> None)"
  "map_of (optional_fields fd) (js ''assignee'') =
     (case fd_assignee fd of
        Some s \<Rightarrow> if trim s \<noteq> [] then Some (JString (trim s)) else None
      | None \<Rightarrow> None)"
  "map_of (optional_fields fd) (js ''start_date'') =
     (case fd_start_date fd of
        Some s \<Rightarrow> if s \<noteq> [] then Some (JString s) else None
      | None \<Rightarrow> None)"
  "map_of (optional_fields fd) (js ''end_date'') =
     (case fd_end_date fd of
        Some s \<Rightarrow> if s \<noteq> [] then Some (JString s) else None
      | None \<Rightarrow> None)"
  unfolding optional_fields_def four_fields_lookup
  by (auto simp: payload_keys trim_Nil_iff split: option.split)

lemma optional_fields_distinct: "distinct (map fst (optional_fields fd))"
  unfolding optional_fields_def by (rule four_fields_distinct)

lemma optional_fields_keys:
  "set (map fst (optional_fields fd)) \<subseteq>
     {js ''summary'', js ''assignee'', js ''start_date'', js ''end_date''}"
  unfolding optional_fields_def by (rule four_fields_keys)


lemma example_form_trims:
  "trim (js ''  Fix login '') = js ''Fix login''"
  "trim (js ''   '') = []"
  "trim (js '' Ana'') = js ''Ana''"
  by (simp_all add: trim_def js_def is_js_whitespace_def)

text \<open>
  Claim C10. The request of \<open>createTicket\<close>, and the request of \<open>updateTicket\<close> when a
  ticket is being edited, carry a payload with one entry for a key, in which \<open>title\<close>
  is the trimmed title of the form; \<open>summary\<close> and \<open>assignee\<close> are present exactly when
  their trimmed values are not empty, and then hold the trimmed values; \<open>start_date\<close>
  and \<open>end_date\<close> are present exactly when they are set (neither \<open>null\<close> nor empty), and
  then hold the form's values. A summary or assignee made of white space only is never
  sent. \<open>updateTicket\<close> sends nothing when no ticket is being edited.
\<close>

theorem payload_normalised:
  "createTicket API_URL formData =
     [\<lparr>req_method = js ''POST'', req_url = API_URL @ js ''/tickets/'',
       req_headers = [(js ''Content-Type'', js ''application/json'')],
       req_body = JsonText (JObject (createTicket_payload formData))\<rparr>] \<and>
   updateTicket API_URL (Some editing_id) formData =
     [\<lparr>req_method = js ''PUT'', req_url = API_URL @ js ''/tickets/'' @ int_toString editing_id,
       req_headers = [(js ''Content-Type'', js ''application/json'')],
       req_body = JsonText (JObject (updateTicket_payload formData))\<rparr>] \<and>
   updateTicket API_URL None formData = [] \<and>
   (\<forall>payload \<in> {createTicket_payload formData, updateTicket_payload formData}.
      distinct (map fst payload) \<and>
      map_of payload (js ''title'') = Some (JString (trim (fd_title formData))) \<and>
      map_of payload (js ''summary'') =
        (case fd_summary formData of
           Some s \<Rightarrow> if trim s \<noteq> [] then Some (JString (trim s)) else None
         | None \<Rightarrow> None) \<and>
      map_of payload (js ''assignee'') =
        (case fd_assignee formData of
           Some s \<Rightarrow> if trim s \<noteq> [] then Some (JString (trim s)) else None
         | None \<Rightarrow> None) \<and>
      map_of payload (js ''start_date'') =
        (case fd_start_date formData of
           Some s \<Rightarrow> if s \<noteq> [] then Some (JString s) else None
         | None \<Rightarrow> None) \<and>
      map_of payload (js ''end_date'') =
        (case fd_end_date formData of
           Some s \<Rightarrow> if s \<noteq> [] then Some (JString s) else None
         | None \<Rightarrow> None) \<and>
      (\<forall>s. (fd_summary formData = Some s \<and> (\<forall>c \<in> set s. is_js_whitespace c) \<longrightarrow>
              map_of payload (js ''summary'') = None) \<and>
           (fd_assignee formData = Some s \<and> (\<forall>c \<in> set s. is_js_whitespace c) \<longrightarrow>
              map_of payload (js ''assignee'') = None)))"
proof -
  have keys: "js ''title'' \<notin> set (map fst (optional_fields formData))"
    "js ''status'' \<notin> set (map fst (optional_fields formData))"
    using optional_fields_keys [of formData] by (auto simp: payload_keys)
  have blank: "map_of (optional_fields formData) (js ''summary'') = None"
    if "fd_summary formData = Some s" "\<forall>c \<in> set s. is_js_whitespace c" for s
    using that by (simp add: optional_fields_lookup trim_Nil_iff)
  have blank': "map_of (optional_fields formData) (js ''assignee'') = None"
    if "fd_assignee formData = Some s" "\<forall>c \<in> set s. is_js_whitespace c" for s
    using that by (simp add: optional_fields_lookup trim_Nil_iff)
  have c: "distinct (map fst (createTicket_payload formData))"
    using keys optional_fields_distinct [of formData]
    by (simp add: createTicket_payload_def payload_keys)
  have u: "distinct (map fst (updateTicket_payload formData))"
    using keys optional_fields_distinct [of formData]
    by (simp add: updateTicket_payload_def payload_keys split: option.split)
  have lc: "map_of (createTicket_payload formData) k =
      (if k = js ''title'' then Some (JString (trim (fd_title formData)))
       else if k = js ''status'' then Some (JString (case fd_status formData of Some st \<Rightarrow> status_string st
                  | None \<Rightarrow> js ''open''))
       else map_of (optional_fields formData) k)" for k
    by (simp add: createTicket_payload_def)
  have lu: "map_of (updateTicket_payload formData) k =
      (if k = js ''title'' then Some (JString (trim (fd_title formData)))
       else if k = js ''status'' then map_option (\<lambda>st. JString (status_string st)) (fd_status formData)
       else map_of (optional_fields formData) k)" for k
    by (simp add: updateTicket_payload_def optional_fields_lookup split: option.split)
  show ?thesis
    using c u blank blank'
    by (simp add: createTicket_def updateTicket_def lc lu payload_keys optional_fields_lookup)
qed


theorem payload_normalised_witness:
  "fd_summary example_form = Some (js ''   '') \<and>
   list_all is_js_whitespace (js ''   '') \<and>
   map_of (createTicket_payload example_form) (js ''summary'') = None \<and>
   map_of (createTicket_payload example_form) (js ''title'') = Some (JString (js ''Fix login'')) \<and>
   map_of (createTicket_payload example_form) (js ''start_date'') =
     Some (JString (js ''2025-01-02'')) \<and>
   map_of (updateTicket_payload example_form) (js ''assignee'') = Some (JString (js ''Ana'')) \<and>
   map_of (updateTicket_payload example_form) (js ''end_date'') = None"
proof -
  have blank: "list_all is_js_whitespace (js ''   '')"
    by (simp add: js_def is_js_whitespace_def)
  have fields:
    "fd_title example_form = js ''  Fix login ''"
    "fd_summary example_form = Some (js ''   '')"
    "fd_start_date example_form = Some (js ''2025-01-02'')"
    "fd_end_date example_form = None"
    "fd_assignee example_form = Some (js '' Ana'')"
    by (simp_all add: example_form_def)
  have ne: "js ''2025-01-02'' \<noteq> []" "js ''Ana'' \<noteq> []"
    by (simp_all add: js_def)
  note inst = payload_normalised [of "js ''http://localhost:8000''" example_form 7]
  from inst have create:
      "map_of (createTicket_payload example_form) (js ''title'') =
         Some (JString (trim (fd_title example_form)))"
      "map_of (createTicket_payload example_form) (js ''start_date'') =
        (case fd_start_date example_form of
           Some s \<Rightarrow> if s \<noteq> [] then Some (JString s) else None
         | None \<Rightarrow> None)"
      "fd_summary example_form = Some (js ''   '') \<and>
         (\<forall>c \<in> set (js ''   ''). is_js_whitespace c) \<longrightarrow>
         map_of (createTicket_payload example_form) (js ''summary'') = None"
    by blast+
  from inst have update:
      "map_of (updateTicket_payload example_form) (js ''assignee'') =
        (case fd_assignee example_form of
           Some s \<Rightarrow> if trim s \<noteq> [] then Some (JString (trim s)) else None
         | None \<Rightarrow> None)"
      "map_of (updateTicket_payload example_form) (js ''end_date'') =
        (case fd_end_date example_form of
           Some s \<Rightarrow> if s \<noteq> [] then Some (JString s) else None
         | None \<Rightarrow> None)"
    by blast+
  from create update blank show ?thesis
    by (simp add: fields example_form_trims ne list_all_iff)
qed

end
